theory Spec2Isabelle
  imports Complex_Main
begin

section \<open>Python values, exceptions and numpy arrays\<close>

text \<open>
  The exceptions the steppers can raise.  \<open>ConvergenceError\<close> stands for whatever the
  nonlinear solver raises when it does not converge; \<open>RuntimeError\<close> carries its message.
  Python floats are read as real numbers throughout: rounding, overflow, infinities and NaN
  are outside this development.
\<close>

datatype error =
    IndexError
  | ValueError
  | LinAlgError
  | ZeroDivisionError
  | TypeError
  | AssertionError
  | AttributeError
  | ConvergenceError
  | RuntimeError string

text \<open>
  A method that mutates its object and may raise: it either returns a value or raises, and
  in both cases leaves a state behind (mutations done before a raise stay done).
\<close>

datatype ('a, 's) outcome = Returns 'a 's | Raises error 's

text \<open>
  The degrees of freedom of one field (\<open>Dat.data\<close>), as a one-dimensional numpy array.
  A firedrake \<open>Function\<close> is the list of its fields' arrays (\<open>Function.dat\<close> iterates them).
\<close>

type_synonym dat = "real list"

definition py_index :: "'a list \<Rightarrow> nat \<Rightarrow> error + 'a" where
  \<comment> \<open>\<open>xs[i]\<close> for a tuple, list or one-dimensional array and an index that is not negative\<close>
  "py_index xs i = (if i < length xs then Inr (xs ! i) else Inl IndexError)"

definition np_scale :: "real \<Rightarrow> dat \<Rightarrow> dat" where
  \<comment> \<open>a float times an array\<close>
  "np_scale a x = map (\<lambda>v. a * v) x"

definition np_iadd :: "dat \<Rightarrow> dat \<Rightarrow> error + dat" where
  \<comment> \<open>\<open>a[:] += x\<close>: \<open>x\<close> is broadcast to the shape of \<open>a\<close>, which works for equal lengths and for
      a right-hand side of length one\<close>
  "np_iadd a x =
     (if length x = length a then Inr (map2 (\<lambda>u v. u + v) a x)
      else if length x = 1 then Inr (map (\<lambda>u. u + x ! 0) a)
      else Inl ValueError)"

definition mat_vec :: "real list list \<Rightarrow> real list \<Rightarrow> real list" where
  \<comment> \<open>the matrix-vector product, used to say what a solution of a linear system is\<close>
  "mat_vec M x = map (\<lambda>row. sum_list (map2 (\<lambda>a v. a * v) row x)) M"

definition identity :: "nat \<Rightarrow> real list list" where
  "identity n = map (\<lambda>i. map (\<lambda>j. if i = j then 1 else 0) [0..<n]) [0..<n]"

section \<open>Butcher tableaux and the Runge-Kutta stepper\<close>

record tableau =
  tab_A :: "real list list"
  tab_b :: "real list"
  tab_btilde :: "real list option"
  tab_c :: "real list"
  tab_order :: int

text \<open>
  Modelled from the spec: the splitting \<open>AI\<close> of module \<open>getForm\<close>, which is not among the
  sources; it "returns A, identity".
\<close>

definition AI :: "real list list \<Rightarrow> real list list \<times> real list list" where
  "AI M = (M, identity (length M))"

text \<open>
  The fields of class \<open>TimeStepper\<close>.  \<open>ks\<close> are the subfunctions of \<open>stages\<close> and share its
  data, so the field \<open>ks\<close> stands for both: the solver's write to \<open>stages\<close> is a write to \<open>ks\<close>.
  An entry of \<open>bigBCdata\<close> is a triple \<open>(gdat, gcur, gmethod)\<close>; \<open>gmethod\<close> is a closure made by
  \<open>getForm\<close> that re-evaluates the boundary datum \<open>gcur\<close> into \<open>gdat\<close> and reads the constants
  \<open>t\<close> and \<open>dt\<close>, whose values the model passes to it.
\<close>

type_synonym 'g bc_data = "dat \<times> 'g \<times> ('g \<Rightarrow> dat list \<Rightarrow> real \<times> real \<Rightarrow> dat)"

record 'g time_stepper =
  splitting :: "real list list \<Rightarrow> real list list \<times> real list list"
  u0 :: "dat list"
  time_t :: real
  dt :: real
  num_fields :: nat
  num_stages :: nat
  butcher_tableau :: tableau
  bigBCdata :: "'g bc_data list"
  ks :: "dat list"

text \<open>
  The collaborators outside the repository are parameters: \<open>numpy.linalg.solve\<close> (\<open>linsolve\<close>),
  which returns a vector or raises \<open>LinAlgError\<close> (\<open>None\<close>), the nonlinear solver's
  \<open>solve()\<close> (\<open>nlsolve\<close>, which reads the problem data and the current stage values and writes
  the stage values, whether it converges or raises \<open>ConvergenceError\<close>) and firedrake's \<open>norm\<close>.
\<close>

type_synonym linsolve = "real list list \<Rightarrow> real list \<Rightarrow> real list option"

datatype solve_result = Converged "dat list" | Diverged "dat list"

type_synonym 'g nlsolve =
  "real \<Rightarrow> real \<Rightarrow> dat list \<Rightarrow> 'g bc_data list \<Rightarrow> dat list \<Rightarrow> solve_result"

text \<open>
  The constructor, after \<open>getForm\<close> has returned the stage function and the boundary data.
  The stage function lives on the space of \<open>u0\<close> replicated \<open>num_stages\<close> times, so it has
  \<open>num_stages * num_fields\<close> subfunctions; for one stage and one field \<open>ks\<close> is the tuple of
  the stage function itself, otherwise \<open>stages.split()\<close>: in both cases the list of its arrays.
\<close>

definition TimeStepper_init ::
  "tableau \<Rightarrow> real \<Rightarrow> real \<Rightarrow> dat list \<Rightarrow> (real list list \<Rightarrow> real list list \<times> real list list)
     \<Rightarrow> dat list \<Rightarrow> 'g bc_data list \<Rightarrow> 'g time_stepper" where
  "TimeStepper_init tab t0 dt0 u splt stgs bcdata =
     \<lparr> splitting = splt, u0 = u, time_t = t0, dt = dt0,
       num_fields = length u, num_stages = length (tab_b tab),
       butcher_tableau = tab, bigBCdata = bcdata, ks = stgs \<rparr>"

text \<open>
  The two nested loops of \<open>_update\<close> and of \<open>_estimate_error\<close>:
  \<^verbatim>\<open>for s in range(ns): for i, d in enumerate(f.dat): d.data[:] += dtc * w[..] * ks[nf*s+i].dat.data_ro\<close>.
  The two methods differ in the index of the weight, which \<open>widx s i\<close> gives:
  \<open>_update\<close> reads \<open>b[s]\<close>, \<open>_estimate_error\<close> reads \<open>delb[i]\<close>.
  The arrays are updated in place, so a raise leaves the fields already updated as they are.
\<close>

fun field_loop ::
  "(nat \<Rightarrow> nat \<Rightarrow> nat) \<Rightarrow> real \<Rightarrow> real list \<Rightarrow> dat list \<Rightarrow> nat \<Rightarrow> nat \<Rightarrow> nat list
     \<Rightarrow> dat list \<Rightarrow> (unit, dat list) outcome" where
  "field_loop widx dtc w kss nf s [] f = Returns () f"
| "field_loop widx dtc w kss nf s (i # is) f =
     (case py_index w (widx s i) of
        Inl e \<Rightarrow> Raises e f
      | Inr ws \<Rightarrow>
          (case py_index kss (nf * s + i) of
             Inl e \<Rightarrow> Raises e f
           | Inr k \<Rightarrow>
               (case np_iadd (f ! i) (np_scale (dtc * ws) k) of
                  Inl e \<Rightarrow> Raises e f
                | Inr d \<Rightarrow> field_loop widx dtc w kss nf s is (f[i := d]))))"

fun stage_loop ::
  "(nat \<Rightarrow> nat \<Rightarrow> nat) \<Rightarrow> real \<Rightarrow> real list \<Rightarrow> dat list \<Rightarrow> nat \<Rightarrow> nat list
     \<Rightarrow> dat list \<Rightarrow> (unit, dat list) outcome" where
  "stage_loop widx dtc w kss nf [] f = Returns () f"
| "stage_loop widx dtc w kss nf (s # ss) f =
     (case field_loop widx dtc w kss nf s [0..<length f] f of
        Raises e f' \<Rightarrow> Raises e f'
      | Returns _ f' \<Rightarrow> stage_loop widx dtc w kss nf ss f')"

definition TimeStepper_update ::
  "linsolve \<Rightarrow> ('g, 'z) time_stepper_scheme \<Rightarrow> (unit, ('g, 'z) time_stepper_scheme) outcome" where
  "TimeStepper_update linsolve st =
     (let b = tab_b (butcher_tableau st);
          dtc = dt st;
          ns = num_stages st;
          nf = num_fields st;
          (A1, A2) = splitting st (tab_A (butcher_tableau st))
      in case linsolve A2 b of
           None \<Rightarrow> Raises LinAlgError st
         | Some b' \<Rightarrow>
             (case stage_loop (\<lambda>s i. s) dtc b' (ks st) nf [0..<ns] (u0 st) of
                Raises e u \<Rightarrow> Raises e (st\<lparr>u0 := u\<rparr>)
              | Returns _ u \<Rightarrow> Returns () (st\<lparr>u0 := u\<rparr>)))"

definition refresh_bcs :: "('g, 'z) time_stepper_scheme \<Rightarrow> ('g, 'z) time_stepper_scheme" where
  \<comment> \<open>\<^verbatim>\<open>for gdat, gcur, gmethod in self.bigBCdata: gmethod(gcur, self.u0)\<close>\<close>
  "refresh_bcs st =
     st\<lparr>bigBCdata :=
          map (\<lambda>(gdat, gcur, gmethod). (gmethod gcur (u0 st) (time_t st, dt st), gcur, gmethod))
            (bigBCdata st)\<rparr>"

definition run_solver ::
  "'g nlsolve \<Rightarrow> ('g, 'z) time_stepper_scheme \<Rightarrow> (unit, ('g, 'z) time_stepper_scheme) outcome" where
  \<comment> \<open>\<open>self.solver.solve()\<close>\<close>
  "run_solver nlsolve st =
     (case nlsolve (time_t st) (dt st) (u0 st) (bigBCdata st) (ks st) of
        Converged k \<Rightarrow> Returns () (st\<lparr>ks := k\<rparr>)
      | Diverged k \<Rightarrow> Raises ConvergenceError (st\<lparr>ks := k\<rparr>))"

definition TimeStepper_advance ::
  "linsolve \<Rightarrow> 'g nlsolve \<Rightarrow> ('g, 'z) time_stepper_scheme
     \<Rightarrow> (unit, ('g, 'z) time_stepper_scheme) outcome" where
  "TimeStepper_advance linsolve nlsolve st =
     (case run_solver nlsolve (refresh_bcs st) of
        Raises e st' \<Rightarrow> Raises e st'
      | Returns _ st' \<Rightarrow> TimeStepper_update linsolve st')"

section \<open>The adaptive stepper\<close>

record 'g adaptive_time_stepper = "'g time_stepper" +
  tol :: real
  dt_min :: real
  delb :: "real list"
  error_func :: "dat list"

definition np_sub :: "real list \<Rightarrow> real list \<Rightarrow> error + real list" where
  \<comment> \<open>\<open>x - y\<close> for two one-dimensional arrays, with numpy's broadcasting\<close>
  "np_sub x y =
     (if length x = length y then Inr (map2 (\<lambda>u v. u - v) x y)
      else if length y = 1 then Inr (map (\<lambda>u. u - y ! 0) x)
      else if length x = 1 then Inr (map (\<lambda>v. x ! 0 - v) y)
      else Inl ValueError)"

text \<open>
  \<open>AdaptiveTimeStepper.__init__\<close>: the assertion on \<open>btilde\<close>, the base constructor (called
  without a splitting, so with the default \<open>AI\<close>), then the four fields of its own;
  \<open>Function(u0.function_space())\<close> is a zero function of the shape of \<open>u0\<close>.
\<close>

definition AdaptiveTimeStepper_init ::
  "tableau \<Rightarrow> real \<Rightarrow> real \<Rightarrow> dat list \<Rightarrow> real \<Rightarrow> real \<Rightarrow> dat list \<Rightarrow> 'g bc_data list
     \<Rightarrow> error + 'g adaptive_time_stepper" where
  "AdaptiveTimeStepper_init tab t0 dt0 u tolv dtmin stgs bcdata =
     (case tab_btilde tab of
        None \<Rightarrow> Inl AssertionError
      | Some bt \<Rightarrow>
          (case np_sub (tab_b tab) bt of
             Inl e \<Rightarrow> Inl e
           | Inr d \<Rightarrow>
               Inr (time_stepper.extend (TimeStepper_init tab t0 dt0 u AI stgs bcdata)
                      (adaptive_time_stepper.fields tolv dtmin d (map (map (\<lambda>_. 0)) u)))))"

definition AdaptiveTimeStepper_estimate_error ::
  "(dat list \<Rightarrow> real) \<Rightarrow> ('g, 'z) adaptive_time_stepper_scheme
     \<Rightarrow> (real, ('g, 'z) adaptive_time_stepper_scheme) outcome" where
  "AdaptiveTimeStepper_estimate_error nrm st =
     (let dtc = dt st;
          db = delb st;
          nf = num_fields st;
          zeroed = map (map (\<lambda>_. 0)) (error_func st)
      in case stage_loop (\<lambda>s i. i) dtc db (ks st) nf [0..<num_stages st] zeroed of
           Raises e ef \<Rightarrow> Raises e (st\<lparr>error_func := ef\<rparr>)
         | Returns _ ef \<Rightarrow> Returns (nrm ef) (st\<lparr>error_func := ef\<rparr>))"

text \<open>
  \<open>x ** y\<close> for two Python floats.  Zero to a negative power raises; a negative base with an
  exponent that is not a whole number gives a complex number, and the comparison \<open>q <= 0.1\<close>
  that follows in \<open>advance\<close> raises \<open>TypeError\<close> on it, which the model raises here (only a
  multiplication and two prints lie between).
\<close>

definition py_pow :: "real \<Rightarrow> real \<Rightarrow> error + real" where
  "py_pow x y =
     (if x = 0 then (if y < 0 then Inl ZeroDivisionError else if y = 0 then Inr 1 else Inr 0)
      else if 0 < x then Inr (x powr y)
      else if y = of_int \<lfloor>y\<rfloor> then Inr (x powi \<lfloor>y\<rfloor>)
      else Inl TypeError)"

definition q_factor :: "real \<Rightarrow> real \<Rightarrow> int \<Rightarrow> error + real" where
  \<comment> \<open>\<open>0.84 * (self.tol / err)**(1./(self.butcher_tableau.order-1))\<close>, left operand first\<close>
  "q_factor tolv err ord =
     (if err = 0 then Inl ZeroDivisionError
      else if ord - 1 = 0 then Inl ZeroDivisionError
      else (case py_pow (tolv / err) (1 / of_int (ord - 1)) of
              Inl e \<Rightarrow> Inl e
            | Inr p \<Rightarrow> Inr (0.84 * p)))"

definition clamp_q :: "real \<Rightarrow> real" where
  "clamp_q q = (if q \<le> 0.1 then 0.1 else if q \<ge> 4.0 then 4.0 else q)"

text \<open>
  One pass through the body of the \<open>while 1\<close> loop of \<open>AdaptiveTimeStepper.advance\<close>, in two
  parts: up to the assignment of \<open>dtnew\<close> (\<open>predict\<close>, which yields \<open>err\<close> and \<open>dtnew\<close>), and the
  three-way decision.  A pass ends by raising, by returning \<open>(err, dtnew)\<close> or by falling
  through to the next pass; the outcome keeps the values of \<open>err\<close> and \<open>dtnew\<close> of the pass.
  The prints are left out.
\<close>

datatype attempt_result = Accepted real real | Rejected real real

definition predict ::
  "'g nlsolve \<Rightarrow> (dat list \<Rightarrow> real) \<Rightarrow> ('g, 'z) adaptive_time_stepper_scheme
     \<Rightarrow> (real \<times> real, ('g, 'z) adaptive_time_stepper_scheme) outcome" where
  "predict nlsolve nrm st =
     (case run_solver nlsolve (refresh_bcs st) of
        Raises e s1 \<Rightarrow> Raises e s1
      | Returns _ s1 \<Rightarrow>
          (case AdaptiveTimeStepper_estimate_error nrm s1 of
             Raises e s2 \<Rightarrow> Raises e s2
           | Returns err s2 \<Rightarrow>
               (case q_factor (tol s2) err (tab_order (butcher_tableau s2)) of
                  Inl e \<Rightarrow> Raises e s2
                | Inr q \<Rightarrow> Returns (err, clamp_q q * dt s2) s2)))"

definition attempt ::
  "linsolve \<Rightarrow> 'g nlsolve \<Rightarrow> (dat list \<Rightarrow> real) \<Rightarrow> ('g, 'z) adaptive_time_stepper_scheme
     \<Rightarrow> (attempt_result, ('g, 'z) adaptive_time_stepper_scheme) outcome" where
  "attempt linsolve nlsolve nrm st =
     (case predict nlsolve nrm st of
        Raises e s2 \<Rightarrow> Raises e s2
      | Returns (err, dtnew) s2 \<Rightarrow>
          if err \<ge> tol s2 then Returns (Rejected err dtnew) (s2\<lparr>dt := dtnew\<rparr>)
          else if dtnew \<le> dt_min s2
          then Raises (RuntimeError ''Minimum time step threshold violated'') s2
          else (case TimeStepper_update linsolve s2 of
                  Raises e s3 \<Rightarrow> Raises e s3
                | Returns _ s3 \<Rightarrow> Returns (Accepted err dtnew) (s3\<lparr>dt := dtnew\<rparr>)))"

text \<open>
  The loop has no bound in the source.  The fuel counts passes; \<open>None\<close> says that the fuel
  ran out before the loop left.
\<close>

fun AdaptiveTimeStepper_advance ::
  "nat \<Rightarrow> linsolve \<Rightarrow> 'g nlsolve \<Rightarrow> (dat list \<Rightarrow> real) \<Rightarrow> ('g, 'z) adaptive_time_stepper_scheme
     \<Rightarrow> (real \<times> real, ('g, 'z) adaptive_time_stepper_scheme) outcome option" where
  "AdaptiveTimeStepper_advance 0 linsolve nlsolve nrm st = None"
| "AdaptiveTimeStepper_advance (Suc n) linsolve nlsolve nrm st =
     (case attempt linsolve nlsolve nrm st of
        Raises e s \<Rightarrow> Some (Raises e s)
      | Returns (Rejected err dtnew) s \<Rightarrow> AdaptiveTimeStepper_advance n linsolve nlsolve nrm s
      | Returns (Accepted err dtnew) s \<Rightarrow> Some (Returns (err, dtnew) s))"

text \<open>The state in which pass number \<open>k\<close> starts, when the \<open>k\<close> passes before it were rejections.\<close>

fun after_rejections ::
  "nat \<Rightarrow> linsolve \<Rightarrow> 'g nlsolve \<Rightarrow> (dat list \<Rightarrow> real) \<Rightarrow> ('g, 'z) adaptive_time_stepper_scheme
     \<Rightarrow> ('g, 'z) adaptive_time_stepper_scheme option" where
  "after_rejections 0 linsolve nlsolve nrm st = Some st"
| "after_rejections (Suc k) linsolve nlsolve nrm st =
     (case attempt linsolve nlsolve nrm st of
        Returns (Rejected err dtnew) s \<Rightarrow> after_rejections k linsolve nlsolve nrm s
      | _ \<Rightarrow> None)"

text \<open>The state an outcome leaves behind.\<close>

fun state_of :: "('a, 's) outcome \<Rightarrow> 's" where
  "state_of (Returns _ s) = s"
| "state_of (Raises _ s) = s"

section \<open>The discontinuous Galerkin form\<close>

text \<open>
  FIAT supplies the time element and the quadrature rule.  A reference cell is a UFC simplex
  of some spatial dimension.  Of an element the form needs its reference cell, the dimension
  of its space, its tabulation (\<open>tabulate(1, pts)\<close> gives the table of values and the table of
  first derivatives, one row per degree of freedom and one column per point) and three
  entries of \<open>entity_dofs()\<close>: \<open>[0][0]\<close>, the dofs of the left vertex, \<open>[1][0]\<close>, those of the
  interior, and \<open>[0][1]\<close>, those of the right vertex.  A \<open>DiscontinuousElement\<close> wraps an element
  \<open>_element\<close> and answers \<open>space_dimension\<close>, \<open>tabulate\<close> and \<open>get_reference_element\<close> as that one does.
\<close>

datatype ref_el = Simplex nat

fun get_spatial_dimension :: "ref_el \<Rightarrow> nat" where
  "get_spatial_dimension (Simplex d) = d"

record fiat_element =
  get_reference_element :: ref_el
  space_dimension :: nat
  tabulate :: "real list \<Rightarrow> real list list \<times> real list list"
  edofs_0_0 :: "nat list"
  edofs_1_0 :: "nat list"
  edofs_0_1 :: "nat list"

datatype element = Element fiat_element | DiscontinuousElement fiat_element

fun unwrapped :: "element \<Rightarrow> fiat_element" where
  "unwrapped (Element e) = e"
| "unwrapped (DiscontinuousElement e) = e"

record quadrature =
  q_ref_el :: ref_el
  get_points :: "real list"
  get_weights :: "real list"

text \<open>
  UFL is symbolic.  The model keeps the expressions the function builds as terms: the
  symbols \<open>t\<close>, \<open>dt\<close>, \<open>u0\<close> and the test function \<open>v\<close>, the rows \<open>u_np[i]\<close> and \<open>v_np[i]\<close> of the
  stage unknown and of the stage test function, and \<open>u_np @ col\<close> for a column of a table.
  A form is what \<open>extract_terms\<close> and \<open>strip_dt_form\<close> (module \<open>manipulation\<close>, outside the
  sources) make of the input: \<open>Dtless F\<close> is \<open>strip_dt_form(extract_terms(F).time)\<close> and
  \<open>Remainder F\<close> is \<open>extract_terms(F).remainder\<close>; \<open>Component_replace\<close> is the call of
  \<open>component_replace\<close> (module \<open>tools\<close>) with its dictionary, \<open>Scaled\<close> a product with a scalar.
  \<open>Fnew\<close> starts as \<open>zero()\<close> and grows by \<open>+=\<close>: it is the list of its summands, in order.
\<close>

datatype expr =
    Sym_t | Sym_dt | Sym_u0 | Sym_v
  | Num real
  | Add expr expr | Sub expr expr | Mul expr expr | Div expr expr
  | U_np nat | V_np nat
  | U_matmul "real list"

datatype 'f form =
    Dtless 'f
  | Remainder 'f
  | Component_replace "'f form" "(expr \<times> expr) list"
  | Scaled expr "'f form"

text \<open>
  A function space is the list of the sizes of its fields' arrays, so \<open>len(V)\<close> is the number
  of fields; the input form carries the space of its test function.
\<close>

record 'f ufl_form =
  form_body :: 'f
  test_space :: "nat list"

definition function_space :: "dat list \<Rightarrow> nat list" where
  "function_space u = map length u"

definition Function_on :: "nat list \<Rightarrow> dat list" where
  \<comment> \<open>\<open>Function(V)\<close>, a zero function\<close>
  "Function_on V = map (\<lambda>n. replicate n 0) V"

fun sequence :: "(error + 'a) list \<Rightarrow> error + 'a list" where
  \<comment> \<open>the results of a loop whose passes may raise: the first raise ends it\<close>
  "sequence [] = Inr []"
| "sequence (x # xs) =
     (case x of
        Inl e \<Rightarrow> Inl e
      | Inr v \<Rightarrow> (case sequence xs of Inl e \<Rightarrow> Inl e | Inr vs \<Rightarrow> Inr (v # vs)))"

definition take_rows :: "real list list \<Rightarrow> nat list \<Rightarrow> error + real list list" where
  \<comment> \<open>\<open>table[perm]\<close>\<close>
  "take_rows table perm = sequence (map (py_index table) perm)"

definition column :: "real list list \<Rightarrow> nat \<Rightarrow> error + real list" where
  \<comment> \<open>\<open>table[:, q]\<close>\<close>
  "column table q = sequence (map (\<lambda>row. py_index row q) table)"

definition dof_perm :: "element \<Rightarrow> nat list" where
  \<comment> \<open>\<open>perm = [*edofs[0][0], *edofs[1][0], *edofs[0][1]]\<close>, on the element inside a wrapper\<close>
  "dof_perm L = (let e = unwrapped L in edofs_0_0 e @ edofs_1_0 e @ edofs_0_1 e)"

text \<open>
  The summand that one pass of the two inner loops adds, for stage \<open>i\<close> and quadrature point
  \<open>q\<close>.  The loops over the time-derivative part and over the remainder differ in the form they
  start from, in the table whose column multiplies \<open>u_np\<close>, and in what is made of that product
  (\<open>(1/dt) * _\<close> or the product itself).  \<open>u_np @ col\<close> needs a column of \<open>num_stages\<close> entries.
\<close>

definition quad_term ::
  "'f form \<Rightarrow> (expr \<Rightarrow> expr) \<Rightarrow> real list list \<Rightarrow> real list list \<Rightarrow> real list \<Rightarrow> real list
     \<Rightarrow> nat \<Rightarrow> nat \<times> nat \<Rightarrow> error + 'f form" where
  "quad_term base wrap basis_vals table qpts qwts ns iq =
     (let i = fst iq; q = snd iq;
          F_i = Component_replace base [(Sym_v, V_np i)]
      in case py_index qpts q of
           Inl e \<Rightarrow> Inl e
         | Inr pt \<Rightarrow>
        (case column table q of
           Inl e \<Rightarrow> Inl e
         | Inr col \<Rightarrow>
             if length col \<noteq> ns then Inl ValueError
             else (case py_index qwts q of
                     Inl e \<Rightarrow> Inl e
                   | Inr w \<Rightarrow>
                  (case py_index basis_vals i of
                     Inl e \<Rightarrow> Inl e
                   | Inr row \<Rightarrow>
                  (case py_index row q of
                     Inl e \<Rightarrow> Inl e
                   | Inr bv \<Rightarrow>
                       Inr (Scaled (Mul (Mul Sym_dt (Num w)) (Num bv))
                              (Component_replace F_i
                                 [(Sym_t, Add Sym_t (Mul Sym_dt (Num pt))),
                                  (Sym_u0, wrap (U_matmul col))])))))))"

definition quad_terms ::
  "'f form \<Rightarrow> (expr \<Rightarrow> expr) \<Rightarrow> real list list \<Rightarrow> real list list \<Rightarrow> real list \<Rightarrow> real list
     \<Rightarrow> nat \<Rightarrow> error + 'f form list" where
  \<comment> \<open>\<^verbatim>\<open>for i in range(num_stages): for q in range(len(qpts)): Fnew += ...\<close>\<close>
  "quad_terms base wrap basis_vals table qpts qwts ns =
     sequence (map (quad_term base wrap basis_vals table qpts qwts ns)
                 (List.product [0..<ns] [0..<length qpts]))"

definition jump_term :: "'f \<Rightarrow> 'f form" where
  \<comment> \<open>\<open>component_replace(dtless, {u0: u_np[0] - u0, v: v_np[0]})\<close>\<close>
  "jump_term F = Component_replace (Dtless F) [(Sym_u0, Sub (U_np 0) Sym_u0), (Sym_v, V_np 0)]"

text \<open>
  \<open>getFormDiscGalerkin\<close>, as far as the form and the stage function.  The mass matrix and the
  projector serve the boundary conditions only; they, the lifted boundary conditions and the
  null space (made by \<open>stage2spaces4bc\<close> and \<open>getNullspace\<close>, outside the sources) are left out,
  and so are the raises they could add.
\<close>

definition getFormDiscGalerkin ::
  "'f ufl_form \<Rightarrow> element \<Rightarrow> quadrature \<Rightarrow> dat list \<Rightarrow> error + ('f form list \<times> dat list)" where
  "getFormDiscGalerkin F L Q u =
     (if get_spatial_dimension (q_ref_el Q) \<noteq> 1 then Inl AssertionError
      else if get_reference_element (unwrapped L) \<noteq> q_ref_el Q then Inl AssertionError
      else if test_space F \<noteq> function_space u then Inl AssertionError
      else
        (let V = test_space F;
             ns = space_dimension (unwrapped L);
             UU = Function_on (concat (replicate ns V));
             qpts = get_points Q;
             qwts = get_weights Q;
             tabulate_basis = tabulate (unwrapped L) qpts;
             perm = dof_perm L
         in case take_rows (fst tabulate_basis) perm of
              Inl e \<Rightarrow> Inl e
            | Inr basis_vals \<Rightarrow>
           (case take_rows (snd tabulate_basis) perm of
              Inl e \<Rightarrow> Inl e
            | Inr basis_dvals \<Rightarrow>
           (case quad_terms (Dtless (form_body F)) (\<lambda>x. Mul (Div (Num 1) Sym_dt) x)
                   basis_vals basis_dvals qpts qwts ns of
              Inl e \<Rightarrow> Inl e
            | Inr time_terms \<Rightarrow>
                if ns = 0 then Inl IndexError
                else (case quad_terms (Remainder (form_body F)) (\<lambda>x. x)
                             basis_vals basis_vals qpts qwts ns of
                        Inl e \<Rightarrow> Inl e
                      | Inr rest_terms \<Rightarrow>
                          Inr (time_terms @ [jump_term (form_body F)] @ rest_terms, UU))))))"

section \<open>The discontinuous Galerkin stepper\<close>

datatype family = DiscontinuousLagrange | Bernstein | IntegratedLegendre | Lagrange "string option"

record 'f dg_stepper =
  dg_u0 :: "dat list"
  dg_t :: real
  dg_dt :: real
  dg_order :: int
  dg_basis_type :: "string option"
  dg_num_fields :: nat
  dg_el :: element
  dg_quadrature :: quadrature
  num_steps :: int
  num_nonlinear_iterations :: int
  num_linear_iterations :: int
  dg_UU :: "dat list"
  dg_bigF :: "'f form list"

text \<open>
  The constructor.  FIAT's element constructors on the unit interval (\<open>fiat\<close>: a family and a
  degree) and \<open>make_quadrature\<close> are parameters.  The part after the assertion on the
  quadrature is a definition of its own.
\<close>

definition DG_init_rest ::
  "'f ufl_form \<Rightarrow> int \<Rightarrow> real \<Rightarrow> real \<Rightarrow> dat list \<Rightarrow> string option \<Rightarrow> element \<Rightarrow> quadrature
     \<Rightarrow> error + 'f dg_stepper" where
  "DG_init_rest F ord t0 dt0 u basis_type el quad =
     (case getFormDiscGalerkin F el quad u of
        Inl e \<Rightarrow> Inl e
      | Inr (bigF, UU) \<Rightarrow>
          Inr \<lparr> dg_u0 = u, dg_t = t0, dg_dt = dt0, dg_order = ord, dg_basis_type = basis_type,
                dg_num_fields = length (function_space u), dg_el = el, dg_quadrature = quad,
                num_steps = 0, num_nonlinear_iterations = 0, num_linear_iterations = 0,
                dg_UU = UU, dg_bigF = bigF \<rparr>)"

definition DG_element :: "(family \<Rightarrow> nat \<Rightarrow> fiat_element) \<Rightarrow> int \<Rightarrow> string option \<Rightarrow> element" where
  "DG_element fiat ord basis_type =
     (if ord = 0 then Element (fiat DiscontinuousLagrange 0)
      else if basis_type = Some ''Bernstein'' then DiscontinuousElement (fiat Bernstein (nat ord))
      else if basis_type = Some ''integral''
      then DiscontinuousElement (fiat IntegratedLegendre (nat ord))
      else (let variant = (if basis_type = Some ''Lagrange'' then None else basis_type)
            in DiscontinuousElement (fiat (Lagrange variant) (nat ord))))"

definition DG_init ::
  "(family \<Rightarrow> nat \<Rightarrow> fiat_element) \<Rightarrow> (ref_el \<Rightarrow> int \<Rightarrow> quadrature) \<Rightarrow> 'f ufl_form \<Rightarrow> int
     \<Rightarrow> real \<Rightarrow> real \<Rightarrow> dat list \<Rightarrow> string option \<Rightarrow> quadrature option \<Rightarrow> error + 'f dg_stepper" where
  "DG_init fiat make_quadrature F ord t0 dt0 u basis_type quadrature_arg =
     (if \<not> ord \<ge> 0 then Inl AssertionError
      else
        (let ufc_line = Simplex 1;
             el = DG_element fiat ord basis_type;
             quad = (case quadrature_arg of
                       None \<Rightarrow> make_quadrature ufc_line (ord + 1)
                     | Some Q \<Rightarrow> Q)
         in if \<not> int (length (get_points quad)) \<ge> ord + 1 then Inl AssertionError
            else DG_init_rest F ord t0 dt0 u basis_type el quad))"

text \<open>
  The solver of the stepper reads the problem data and the stage function, writes the stage
  function, and either converges, with its counts of nonlinear and of linear iterations, or
  raises.
\<close>

datatype dg_solve_result = DG_Converged "dat list" int int | DG_Diverged "dat list"

type_synonym dg_nlsolve = "real \<Rightarrow> real \<Rightarrow> dat list \<Rightarrow> dat list \<Rightarrow> dg_solve_result"

text \<open>
  \<^verbatim>\<open>for i, u0bit in enumerate(u0bits): u0bit.assign(UUs[self.num_fields*(self.order)+i])\<close>.
  \<open>assign\<close> copies the values of a function on the same space, so arrays of the same size.
  The order of a constructed stepper is not negative.
\<close>

fun assign_loop :: "nat \<Rightarrow> nat \<Rightarrow> dat list \<Rightarrow> nat list \<Rightarrow> dat list \<Rightarrow> (unit, dat list) outcome" where
  "assign_loop nf ord UUs [] u = Returns () u"
| "assign_loop nf ord UUs (i # is) u =
     (case py_index UUs (nf * ord + i) of
        Inl e \<Rightarrow> Raises e u
      | Inr d \<Rightarrow>
          if length d \<noteq> length (u ! i) then Raises ValueError u
          else assign_loop nf ord UUs is (u[i := d]))"

definition DG_advance :: "dg_nlsolve \<Rightarrow> 'f dg_stepper \<Rightarrow> (unit, 'f dg_stepper) outcome" where
  "DG_advance nlsolve st =
     (case nlsolve (dg_t st) (dg_dt st) (dg_u0 st) (dg_UU st) of
        DG_Diverged uu \<Rightarrow> Raises ConvergenceError (st\<lparr>dg_UU := uu\<rparr>)
      | DG_Converged uu nits lits \<Rightarrow>
          (let st1 = st\<lparr>dg_UU := uu,
                         num_steps := num_steps st + 1,
                         num_nonlinear_iterations := num_nonlinear_iterations st + nits,
                         num_linear_iterations := num_linear_iterations st + lits\<rparr>
           in case assign_loop (dg_num_fields st1) (nat (dg_order st1)) (dg_UU st1)
                     [0..<length (dg_u0 st1)] (dg_u0 st1) of
                Raises e u \<Rightarrow> Raises e (st1\<lparr>dg_u0 := u\<rparr>)
              | Returns _ u \<Rightarrow> Returns () (st1\<lparr>dg_u0 := u\<rparr>)))"

definition solver_stats :: "'f dg_stepper \<Rightarrow> int \<times> int \<times> int" where
  "solver_stats st = (num_steps st, num_nonlinear_iterations st, num_linear_iterations st)"

text \<open>\<open>n\<close> calls of \<open>advance\<close> in a row; a call that raises ends the run.\<close>

fun DG_advance_n :: "nat \<Rightarrow> dg_nlsolve \<Rightarrow> 'f dg_stepper \<Rightarrow> (unit, 'f dg_stepper) outcome" where
  "DG_advance_n 0 nlsolve st = Returns () st"
| "DG_advance_n (Suc n) nlsolve st =
     (case DG_advance nlsolve st of
        Raises e s \<Rightarrow> Raises e s
      | Returns _ s \<Rightarrow> DG_advance_n n nlsolve s)"

section \<open>The classes and their attributes\<close>

text \<open>
  What each class statement of the two modules defines, the base classes, and the attributes
  that each constructor sets on the instance.  An attribute is looked up on the instance, then
  in the classes of the method resolution order; a name found nowhere raises
  \<open>AttributeError\<close>.
\<close>

datatype py_class =
  TimeStepper_class | AdaptiveTimeStepper_class | DiscontinuousGalerkinTimeStepper_class

fun class_body :: "py_class \<Rightarrow> string list" where
  "class_body TimeStepper_class = [''__init__'', ''_update'', ''advance'']"
| "class_body AdaptiveTimeStepper_class = [''__init__'', ''_estimate_error'', ''advance'']"
| "class_body DiscontinuousGalerkinTimeStepper_class = [''__init__'', ''advance'', ''solver_stats'']"

fun mro :: "py_class \<Rightarrow> py_class list" where
  "mro TimeStepper_class = [TimeStepper_class]"
| "mro AdaptiveTimeStepper_class = [AdaptiveTimeStepper_class, TimeStepper_class]"
| "mro DiscontinuousGalerkinTimeStepper_class = [DiscontinuousGalerkinTimeStepper_class]"

definition TimeStepper_attributes :: "string list" where
  "TimeStepper_attributes =
     [''splitting'', ''u0'', ''t'', ''dt'', ''num_fields'', ''num_stages'', ''butcher_tableau'',
      ''stages'', ''bigBCs'', ''bigBCdata'', ''solver'', ''ks'']"

fun instance_attributes :: "py_class \<Rightarrow> string list" where
  "instance_attributes TimeStepper_class = TimeStepper_attributes"
| "instance_attributes AdaptiveTimeStepper_class =
     TimeStepper_attributes @ [''tol'', ''dt_min'', ''delb'', ''error_func'']"
| "instance_attributes DiscontinuousGalerkinTimeStepper_class =
     [''u0'', ''orig_bcs'', ''t'', ''dt'', ''order'', ''basis_type'', ''num_fields'', ''el'',
      ''quadrature'', ''num_steps'', ''num_nonlinear_iterations'', ''num_linear_iterations'',
      ''UU'', ''bigBCs'', ''solver'']"

definition has_attribute :: "py_class \<Rightarrow> string \<Rightarrow> bool" where
  "has_attribute cls name =
     (name \<in> set (instance_attributes cls) \<or> (\<exists>k \<in> set (mro cls). name \<in> set (class_body k)))"

datatype ('g, 'f) stepper =
    RK_stepper "'g time_stepper"
  | Adaptive_stepper "'g adaptive_time_stepper"
  | DG_stepper "'f dg_stepper"

fun class_of :: "('g, 'f) stepper \<Rightarrow> py_class" where
  "class_of (RK_stepper _) = TimeStepper_class"
| "class_of (Adaptive_stepper _) = AdaptiveTimeStepper_class"
| "class_of (DG_stepper _) = DiscontinuousGalerkinTimeStepper_class"

definition call_solver_stats :: "('g, 'f) stepper \<Rightarrow> error + int \<times> int \<times> int" where
  \<comment> \<open>\<open>stepper.solver_stats()\<close>; the method that the lookup finds is the one of the third class\<close>
  "call_solver_stats stp =
     (if \<not> has_attribute (class_of stp) ''solver_stats'' then Inl AttributeError
      else (case stp of
              DG_stepper st \<Rightarrow> Inr (solver_stats st)
            | _ \<Rightarrow> Inl AttributeError))"

section \<open>What the specification says, for comparison\<close>

text \<open>
  The value that the two nested loops add up to when no pass raises: field \<open>i\<close> gains, in each
  degree of freedom \<open>j\<close>, the sum over the stages \<open>s\<close> of \<open>dtc * w[widx s i] * ks[nf*s+i][j]\<close>.
\<close>

definition weighted_sum ::
  "(nat \<Rightarrow> nat \<Rightarrow> nat) \<Rightarrow> real \<Rightarrow> real list \<Rightarrow> dat list \<Rightarrow> nat \<Rightarrow> nat \<Rightarrow> dat list \<Rightarrow> dat list" where
  "weighted_sum widx dtc w kss nf ns f =
     map (\<lambda>i. map (\<lambda>j. f ! i ! j + (\<Sum>s<ns. dtc * w ! widx s i * kss ! (nf * s + i) ! j))
                [0..<length (f ! i)]) [0..<length f]"

text \<open>
  The error function as the specification describes it: the difference of the increments of
  the two methods, where stage \<open>s\<close> is weighted by entry \<open>s\<close> of \<open>b - btilde\<close>.
\<close>

definition spec_error_func :: "real \<Rightarrow> real list \<Rightarrow> dat list \<Rightarrow> nat \<Rightarrow> nat \<Rightarrow> dat list \<Rightarrow> dat list" where
  "spec_error_func dtc db kss nf ns ef =
     map (\<lambda>i. map (\<lambda>j. \<Sum>s<ns. dtc * db ! s * kss ! (nf * s + i) ! j) [0..<length (ef ! i)])
       [0..<length ef]"

text \<open>
  Accuracy of a quadrature rule on the unit interval, as its degree of exactness: the rule
  integrates the monomials up to degree \<open>d\<close> exactly.
\<close>

definition exact_for_degree :: "quadrature \<Rightarrow> nat \<Rightarrow> bool" where
  "exact_for_degree Q d =
     list_all (\<lambda>k. sum_list (map2 (\<lambda>p w. w * p ^ k) (get_points Q) (get_weights Q)) = 1 / real (k + 1))
       [0..<Suc d]"


section \<open>Example data\<close>

text \<open>
  The two-stage Lobatto IIIC method, of order two, with an embedded first-order method; a
  solver of \<open>numpy\<close>'s kind for the identity matrix; a norm (the sum of the absolute values);
  and a stage solver whose stage values are \<open>dt\<close> and \<open>3 dt\<close> in every degree of freedom.
\<close>

definition ex_tableau :: tableau where
  "ex_tableau = \<lparr> tab_A = [[1/2, -1/2], [1/2, 1/2]], tab_b = [1/2, 1/2],
                   tab_btilde = Some [1, 0], tab_c = [0, 1], tab_order = 2 \<rparr>"

definition ex_linsolve :: linsolve where
  "ex_linsolve M v = (if M = identity (length v) then Some v else None)"

definition ex_norm :: "dat list \<Rightarrow> real" where
  "ex_norm ef = sum_list (map (\<lambda>d. sum_list (map abs d)) ef)"

definition ex_nlsolve :: "unit nlsolve" where
  "ex_nlsolve t0 dt0 u bcs k = Converged [map (\<lambda>_. dt0) (hd u), map (\<lambda>_. 3 * dt0) (hd u)]"

definition ex_failing_nlsolve :: "unit nlsolve" where
  "ex_failing_nlsolve t0 dt0 u bcs k = Diverged [map (\<lambda>_. 7) (hd u), map (\<lambda>_. 7) (hd u)]"

definition ex_stepper :: "unit time_stepper" where
  "ex_stepper = TimeStepper_init ex_tableau 0 1 [[1]] AI [[1], [3]] []"

definition ex_adaptive :: "real \<Rightarrow> unit adaptive_time_stepper" where
  \<comment> \<open>tolerance one half, and the given minimal step\<close>
  "ex_adaptive dtmin =
     \<lparr> splitting = AI, u0 = [[1]], time_t = 0, dt = 1, num_fields = 1, num_stages = 2,
       butcher_tableau = ex_tableau, bigBCdata = [], ks = [[0], [0]],
       tol = 1/2, dt_min = dtmin, delb = [-1/2, 1/2], error_func = [[0]] \<rparr>"

text \<open>
  Lagrange elements of degree 0, 1 and 2 on the unit interval with equispaced nodes, the
  vertex dofs numbered before the interior one as FIAT does; the examples need no higher
  degree, which answers as degree 2.  For a rule with \<open>m\<close> points the examples take the midpoint
  rule on \<open>m\<close> cells, which for one point is the Gauss-Legendre rule.  A stage solver that sets
  every stage to \<open>u0 / (1 + dt)\<close>, in two nonlinear and three linear iterations.
\<close>

definition P0_element :: fiat_element where
  "P0_element = \<lparr> get_reference_element = Simplex 1, space_dimension = 1,
       tabulate = (\<lambda>pts. ([map (\<lambda>x. 1) pts], [map (\<lambda>x. 0) pts])),
       edofs_0_0 = [], edofs_1_0 = [0], edofs_0_1 = [] \<rparr>"

definition P1_element :: fiat_element where
  "P1_element = \<lparr> get_reference_element = Simplex 1, space_dimension = 2,
       tabulate = (\<lambda>pts. ([map (\<lambda>x. 1 - x) pts, map (\<lambda>x. x) pts],
                           [map (\<lambda>x. - 1) pts, map (\<lambda>x. 1) pts])),
       edofs_0_0 = [0], edofs_1_0 = [], edofs_0_1 = [1] \<rparr>"

definition P2_element :: fiat_element where
  "P2_element = \<lparr> get_reference_element = Simplex 1, space_dimension = 3,
       tabulate = (\<lambda>pts. ([map (\<lambda>x. (1 - x) * (1 - 2 * x)) pts, map (\<lambda>x. x * (2 * x - 1)) pts,
                            map (\<lambda>x. 4 * x * (1 - x)) pts],
                           [map (\<lambda>x. 4 * x - 3) pts, map (\<lambda>x. 4 * x - 1) pts,
                            map (\<lambda>x. 4 - 8 * x) pts])),
       edofs_0_0 = [0], edofs_1_0 = [2], edofs_0_1 = [1] \<rparr>"

definition ex_fiat :: "family \<Rightarrow> nat \<Rightarrow> fiat_element" where
  "ex_fiat fam k = (if k = 0 then P0_element else if k = 1 then P1_element else P2_element)"

definition ex_make_quadrature :: "ref_el \<Rightarrow> int \<Rightarrow> quadrature" where
  "ex_make_quadrature cell m =
     \<lparr> q_ref_el = cell,
       get_points = map (\<lambda>j. (2 * real j + 1) / (2 * real_of_int m)) [0..<nat m],
       get_weights = replicate (nat m) (1 / real_of_int m) \<rparr>"

definition ex_form :: "string ufl_form" where
  "ex_form = \<lparr> form_body = ''F'', test_space = [1] \<rparr>"

definition ex_dg_nlsolve :: dg_nlsolve where
  "ex_dg_nlsolve t0 dt0 u UU =
     DG_Converged (concat (replicate (length UU div length u) (map (map (\<lambda>x. x / (1 + dt0))) u))) 2 3"

definition ex_trapezoid3 :: quadrature where
  \<comment> \<open>the trapezoidal rule on two cells: three points, exact for degree one only\<close>
  "ex_trapezoid3 = \<lparr> q_ref_el = Simplex 1, get_points = [0, 1/2, 1], get_weights = [1/4, 1/2, 1/4] \<rparr>"

definition ex_dg0 :: "string dg_stepper" where
  \<comment> \<open>the stepper of order zero that the constructor builds for \<open>u0 = 1\<close> and \<open>dt = 1/10\<close>\<close>
  "ex_dg0 =
     \<lparr> dg_u0 = [[1]], dg_t = 0, dg_dt = 1/10, dg_order = 0, dg_basis_type = None,
       dg_num_fields = 1, dg_el = Element P0_element,
       dg_quadrature = ex_make_quadrature (Simplex 1) 1,
       num_steps = 0, num_nonlinear_iterations = 0, num_linear_iterations = 0,
       dg_UU = [[0]],
       dg_bigF =
         [Scaled (Mul (Mul Sym_dt (Num 1)) (Num 1))
            (Component_replace (Component_replace (Dtless ''F'') [(Sym_v, V_np 0)])
               [(Sym_t, Add Sym_t (Mul Sym_dt (Num (1 / 2)))),
                (Sym_u0, Mul (Div (Num 1) Sym_dt) (U_matmul [0]))]),
          Component_replace (Dtless ''F'') [(Sym_u0, Sub (U_np 0) Sym_u0), (Sym_v, V_np 0)],
          Scaled (Mul (Mul Sym_dt (Num 1)) (Num 1))
            (Component_replace (Component_replace (Remainder ''F'') [(Sym_v, V_np 0)])
               [(Sym_t, Add Sym_t (Mul Sym_dt (Num (1 / 2)))),
                (Sym_u0, U_matmul [1])])] \<rparr>"

section \<open>The update of the discontinuous Galerkin stepper\<close>




section \<open>The update of the Runge-Kutta stepper\<close>

lemma field_loop_ok:
  assumes "distinct idxs"
    and "\<forall>i\<in>set idxs. i < length f \<and> widx s i < length w \<and> nf * s + i < length kss
           \<and> length (kss ! (nf * s + i)) = length (f ! i)"
  shows "field_loop widx dtc w kss nf s idxs f =
     Returns () (map (\<lambda>i. if i \<in> set idxs
                      then map2 (\<lambda>u v. u + v) (f ! i) (np_scale (dtc * w ! widx s i) (kss ! (nf * s + i)))
                      else f ! i) [0..<length f])"
  using assms
proof (induction idxs arbitrary: f)
  case Nil
  then show ?case by (simp add: map_nth)
next
  case (Cons i idxs)
  let ?d = "map2 (\<lambda>u v. u + v) (f ! i) (np_scale (dtc * w ! widx s i) (kss ! (nf * s + i)))"
  from Cons.prems have i: "i < length f" "widx s i < length w" "nf * s + i < length kss"
    "length (kss ! (nf * s + i)) = length (f ! i)" "i \<notin> set idxs" "distinct idxs" by auto
  have step: "field_loop widx dtc w kss nf s (i # idxs) f = field_loop widx dtc w kss nf s idxs (f[i := ?d])"
    using i by (simp add: py_index_def np_iadd_def np_scale_def)
  have pre: "\<forall>j\<in>set idxs. j < length (f[i := ?d]) \<and> widx s j < length w \<and> nf * s + j < length kss
           \<and> length (kss ! (nf * s + j)) = length (f[i := ?d] ! j)"
    using Cons.prems i by (auto simp: nth_list_update)
  show ?case
    unfolding step Cons.IH[OF i(6) pre]
    using i by (auto intro!: nth_equalityI simp: nth_list_update)
qed

lemma stage_loop_append:
  "stage_loop widx dtc w kss nf (xs @ ys) f =
     (case stage_loop widx dtc w kss nf xs f of
        Raises e f' \<Rightarrow> Raises e f'
      | Returns _ f' \<Rightarrow> stage_loop widx dtc w kss nf ys f')"
  by (induction xs arbitrary: f) (auto split: outcome.splits)

lemma stage_loop_ok:
  assumes "\<forall>s<ns. \<forall>i<length f. widx s i < length w \<and> nf * s + i < length kss
              \<and> length (kss ! (nf * s + i)) = length (f ! i)"
  shows "stage_loop widx dtc w kss nf [0..<ns] f = Returns () (weighted_sum widx dtc w kss nf ns f)"
  using assms
proof (induction ns)
  case 0
  show ?case
    by (auto simp: weighted_sum_def intro!: nth_equalityI)
next
  case (Suc n)
  let ?g = "weighted_sum widx dtc w kss nf n f"
  have IH: "stage_loop widx dtc w kss nf [0..<n] f = Returns () ?g"
    using Suc by simp
  have len: "length ?g = length f" and leni: "\<And>i. i < length f \<Longrightarrow> length (?g ! i) = length (f ! i)"
    by (simp_all add: weighted_sum_def)
  have pre: "\<forall>i\<in>set [0..<length ?g]. i < length ?g \<and> widx n i < length w \<and> nf * n + i < length kss
           \<and> length (kss ! (nf * n + i)) = length (?g ! i)"
    using Suc.prems len leni by auto
  have fl: "field_loop widx dtc w kss nf n [0..<length ?g] ?g =
      Returns () (map (\<lambda>i. if i \<in> set [0..<length ?g]
                      then map2 (\<lambda>u v. u + v) (?g ! i) (np_scale (dtc * w ! widx n i) (kss ! (nf * n + i)))
                      else ?g ! i) [0..<length ?g])"
    using pre by (intro field_loop_ok[where idxs="[0..<length ?g]" and f="?g" and widx=widx and s=n and w=w and nf=nf and kss=kss and dtc=dtc]) simp_all
  have eq: "map (\<lambda>i. if i \<in> set [0..<length ?g]
                      then map2 (\<lambda>u v. u + v) (?g ! i) (np_scale (dtc * w ! widx n i) (kss ! (nf * n + i)))
                      else ?g ! i) [0..<length ?g] = weighted_sum widx dtc w kss nf (Suc n) f"
  proof (rule nth_equalityI)
    show "length (map (\<lambda>i. if i \<in> set [0..<length ?g]
                      then map2 (\<lambda>u v. u + v) (?g ! i) (np_scale (dtc * w ! widx n i) (kss ! (nf * n + i)))
                      else ?g ! i) [0..<length ?g]) = length (weighted_sum widx dtc w kss nf (Suc n) f)"
      by (simp add: weighted_sum_def)
  next
    fix i assume "i < length (map (\<lambda>i. if i \<in> set [0..<length ?g]
                      then map2 (\<lambda>u v. u + v) (?g ! i) (np_scale (dtc * w ! widx n i) (kss ! (nf * n + i)))
                      else ?g ! i) [0..<length ?g])"
    then have i: "i < length f" by (simp add: len)
    have k: "length (kss ! (nf * n + i)) = length (f ! i)" using Suc.prems i by auto
    show "map (\<lambda>i. if i \<in> set [0..<length ?g]
                      then map2 (\<lambda>u v. u + v) (?g ! i) (np_scale (dtc * w ! widx n i) (kss ! (nf * n + i)))
                      else ?g ! i) [0..<length ?g] ! i = weighted_sum widx dtc w kss nf (Suc n) f ! i"
      using i k by (auto simp: weighted_sum_def np_scale_def intro!: nth_equalityI)
  qed
  have sl: "stage_loop widx dtc w kss nf [n] ?g = Returns () (weighted_sum widx dtc w kss nf (Suc n) f)"
    unfolding stage_loop.simps fl eq by simp
  have "stage_loop widx dtc w kss nf [0..<Suc n] f = stage_loop widx dtc w kss nf ([0..<n] @ [n]) f"
    by simp
  also have "\<dots> = stage_loop widx dtc w kss nf [n] ?g"
    unfolding stage_loop_append IH by simp
  finally show ?case
    using sl by simp
qed

lemma mat_vec_identity:
  assumes "length x = n"
  shows "mat_vec (identity n) x = x"
proof (rule nth_equalityI)
  show "length (mat_vec (identity n) x) = length x"
    using assms by (simp add: mat_vec_def identity_def)
next
  fix i assume "i < length (mat_vec (identity n) x)"
  then have i: "i < n" by (simp add: mat_vec_def identity_def)
  have "map2 (\<lambda>a v. a * v) (map (\<lambda>j. if i = j then 1 else 0) [0..<n]) x
          = map (\<lambda>j. if i = j then x ! j else 0) [0..<n]"
    using assms by (auto intro!: nth_equalityI)
  then have "sum_list (map2 (\<lambda>a v. a * v) (map (\<lambda>j. if i = j then 1 else 0) [0..<n]) x)
          = (\<Sum>j<n. if i = j then x ! j else 0)"
    by (simp add: interv_sum_list_conv_sum_set_nat atLeast0LessThan)
  also have "\<dots> = x ! i"
    using i by simp
  finally show "mat_vec (identity n) x ! i = x ! i"
    using i by (simp add: mat_vec_def identity_def)
qed

text \<open>
  Claim C2.  After the stage solve, \<open>_update\<close> adds to each field \<open>i\<close> of \<open>u0\<close> the increment
  \<open>dt * (\<Sum>s. x[s] * k[num_fields*s + i])\<close>, where \<open>x\<close> is what \<open>numpy.linalg.solve(A2, b)\<close>
  returns for the second factor \<open>A2\<close> of the splitting, that is the solution of \<open>A2 x = b\<close>.
  With the default splitting \<open>AI\<close> the matrix \<open>A2\<close> is the identity and \<open>x\<close> is \<open>b\<close>.  The stepper
  is in the shape its constructor gives it: \<open>num_fields\<close> fields, \<open>num_stages * num_fields\<close>
  stage subfunctions on the spaces of the fields.
\<close>

theorem TimeStepper_update_increment:
  assumes split: "splitting st (tab_A (butcher_tableau st)) = (A1, A2)"
    and sol: "linsolve A2 (tab_b (butcher_tableau st)) = Some x"
    and lenx: "length x = num_stages st"
    and nf: "length (u0 st) = num_fields st"
    and nks: "length (ks st) = num_stages st * num_fields st"
    and shapes: "\<forall>s<num_stages st. \<forall>i<num_fields st.
                   length (ks st ! (num_fields st * s + i)) = length (u0 st ! i)"
  shows "TimeStepper_update linsolve st
           = Returns () (st\<lparr>u0 :=
               map (\<lambda>i. map (\<lambda>j. u0 st ! i ! j
                                  + dt st * (\<Sum>s<num_stages st. x ! s * ks st ! (num_fields st * s + i) ! j))
                           [0..<length (u0 st ! i)])
                 [0..<num_fields st]\<rparr>)
       \<and> (splitting st = AI \<and> length (tab_A (butcher_tableau st)) = num_stages st
            \<and> mat_vec A2 x = tab_b (butcher_tableau st)
          \<longrightarrow> A2 = identity (num_stages st) \<and> x = tab_b (butcher_tableau st))"
proof -
  have rng: "\<forall>s<num_stages st. \<forall>i<length (u0 st). s < length x
               \<and> num_fields st * s + i < length (ks st)
               \<and> length (ks st ! (num_fields st * s + i)) = length (u0 st ! i)"
  proof (intro allI impI conjI)
    fix s i assume s: "s < num_stages st" and i: "i < length (u0 st)"
    show "s < length x" using s lenx by simp
    have "num_fields st * s + i < num_fields st * Suc s" using i nf by simp
    also have "\<dots> \<le> num_fields st * num_stages st" using s by (simp add: Suc_leI del: mult_Suc_right)
    finally show "num_fields st * s + i < length (ks st)" using nks by (simp add: mult.commute)
    show "length (ks st ! (num_fields st * s + i)) = length (u0 st ! i)"
      using shapes s i nf by simp
  qed
  have loop: "stage_loop (\<lambda>s i. s) (dt st) x (ks st) (num_fields st) [0..<num_stages st] (u0 st)
        = Returns () (weighted_sum (\<lambda>s i. s) (dt st) x (ks st) (num_fields st) (num_stages st) (u0 st))"
    by (rule stage_loop_ok) (use rng in simp)
  have ws: "weighted_sum (\<lambda>s i. s) (dt st) x (ks st) (num_fields st) (num_stages st) (u0 st)
        = map (\<lambda>i. map (\<lambda>j. u0 st ! i ! j
                                  + dt st * (\<Sum>s<num_stages st. x ! s * ks st ! (num_fields st * s + i) ! j))
                           [0..<length (u0 st ! i)])
                 [0..<num_fields st]"
    by (simp add: weighted_sum_def nf sum_distrib_left mult.assoc)
  have first: "TimeStepper_update linsolve st
           = Returns () (st\<lparr>u0 :=
               map (\<lambda>i. map (\<lambda>j. u0 st ! i ! j
                                  + dt st * (\<Sum>s<num_stages st. x ! s * ks st ! (num_fields st * s + i) ! j))
                           [0..<length (u0 st ! i)])
                 [0..<num_fields st]\<rparr>)"
    by (simp add: TimeStepper_update_def Let_def split sol loop ws)
  have second: "A2 = identity (num_stages st) \<and> x = tab_b (butcher_tableau st)"
    if h: "splitting st = AI" "length (tab_A (butcher_tableau st)) = num_stages st"
          "mat_vec A2 x = tab_b (butcher_tableau st)"
  proof -
    from split h(1,2) have A2: "A2 = identity (num_stages st)" by (simp add: AI_def)
    with h(3) mat_vec_identity[OF lenx] show ?thesis by simp
  qed
  from first second show ?thesis by blast
qed

theorem TimeStepper_update_increment_witness:
  "TimeStepper_update ex_linsolve ex_stepper = Returns () (ex_stepper\<lparr>u0 := [[3]]\<rparr>)
   \<and> splitting ex_stepper = AI
   \<and> ex_linsolve (identity 2) (tab_b (butcher_tableau ex_stepper)) = Some [1/2, 1/2]"
proof -
  have id2: "identity 2 = [[1, 0], [0, 1]]"
    by (simp add: identity_def numeral_2_eq_2)
  have h1: "splitting ex_stepper (tab_A (butcher_tableau ex_stepper)) = (tab_A ex_tableau, identity 2)"
    by (simp add: ex_stepper_def TimeStepper_init_def AI_def ex_tableau_def numeral_2_eq_2)
  have h2: "ex_linsolve (identity 2) (tab_b (butcher_tableau ex_stepper)) = Some [1/2, 1/2]"
    by (simp add: ex_stepper_def TimeStepper_init_def ex_tableau_def ex_linsolve_def numeral_2_eq_2)
  have h3: "length [1/2, 1/2 :: real] = num_stages ex_stepper"
    by (simp add: ex_stepper_def TimeStepper_init_def ex_tableau_def)
  have h4: "length (u0 ex_stepper) = num_fields ex_stepper"
    by (simp add: ex_stepper_def TimeStepper_init_def)
  have h5: "length (ks ex_stepper) = num_stages ex_stepper * num_fields ex_stepper"
    by (simp add: ex_stepper_def TimeStepper_init_def ex_tableau_def)
  have h6: "\<forall>s<num_stages ex_stepper. \<forall>i<num_fields ex_stepper.
                   length (ks ex_stepper ! (num_fields ex_stepper * s + i)) = length (u0 ex_stepper ! i)"
    by (simp add: ex_stepper_def TimeStepper_init_def ex_tableau_def less_Suc_eq numeral_2_eq_2)
  have "TimeStepper_update ex_linsolve ex_stepper = Returns () (ex_stepper\<lparr>u0 := [[3]]\<rparr>)"
    using TimeStepper_update_increment[where st=ex_stepper and linsolve=ex_linsolve and ?A1.0="tab_A ex_tableau" and ?A2.0="identity 2" and x="[1/2, 1/2]", OF h1 h2 h3 h4 h5 h6]
    by (simp add: ex_stepper_def TimeStepper_init_def ex_tableau_def numeral_2_eq_2)
  then show ?thesis
    using h2 by (simp add: ex_stepper_def TimeStepper_init_def)
qed


section \<open>The error estimate\<close>

lemma ex_adaptive_init:
  "AdaptiveTimeStepper_init ex_tableau 0 1 [[1]] (1/2) d [[0], [0]] [] = Inr (ex_adaptive d)"
  by (simp add: AdaptiveTimeStepper_init_def ex_tableau_def np_sub_def TimeStepper_init_def
      ex_adaptive_def time_stepper.extend_def adaptive_time_stepper.fields_def)

text \<open>
  Claim C1.  The claim asks for the norm of \<open>\<Sum>s. dt * (b - btilde)[s] * k_s\<close>.  The loop of
  \<open>_estimate_error\<close> reads \<open>delb[i]\<close>, the entry of the field index, in the place of \<open>delb[s]\<close>.
  For the example stepper (two stages, one field, \<open>b - btilde = [-1/2, 1/2]\<close>, \<open>dt = 1\<close>) with the
  stage values 1 and 3 the method returns the norm of \<open>-2\<close>, which is
  \<open>dt * delb[0] * (k_0 + k_1)\<close>, where the difference of the two increments is 1.
\<close>

theorem estimate_error_uses_field_index:
  "AdaptiveTimeStepper_estimate_error ex_norm ((ex_adaptive (1/100))\<lparr>ks := [[1], [3]]\<rparr>)
     = Returns 2 ((ex_adaptive (1/100))\<lparr>ks := [[1], [3]], error_func := [[- 2]]\<rparr>)
   \<and> spec_error_func 1 [- 1/2, 1/2] [[1], [3]] 1 2 [[0]] = [[1]]
   \<and> ex_norm [[1]] = 1"
  by (simp add: AdaptiveTimeStepper_estimate_error_def ex_adaptive_def ex_norm_def spec_error_func_def
      py_index_def np_iadd_def np_scale_def numeral_2_eq_2 Let_def)


section \<open>The adaptive loop\<close>

lemma update_frame:
  "state_of (TimeStepper_update linsolve st) = st\<lparr>u0 := u0 (state_of (TimeStepper_update linsolve st))\<rparr>"
  by (simp add: TimeStepper_update_def Let_def split: prod.splits option.splits outcome.splits)

lemma field_loop_raises:
  "field_loop widx dtc w kss nf s idxs f = Raises e f' \<Longrightarrow> e = IndexError \<or> e = ValueError"
  by (induction idxs arbitrary: f)
     (auto simp: py_index_def np_iadd_def split: sum.splits if_splits)

lemma stage_loop_raises:
  "stage_loop widx dtc w kss nf ss f = Raises e f' \<Longrightarrow> e = IndexError \<or> e = ValueError"
  by (induction ss arbitrary: f) (auto split: outcome.splits dest: field_loop_raises)

lemma update_raises:
  "TimeStepper_update linsolve st = Raises e s \<Longrightarrow> e = LinAlgError \<or> e = IndexError \<or> e = ValueError"
  by (auto simp: TimeStepper_update_def Let_def split: prod.splits option.splits outcome.splits
        dest: stage_loop_raises)

lemma run_solver_frame:
  "state_of (run_solver nlsolve st) = st\<lparr>ks := ks (state_of (run_solver nlsolve st))\<rparr>"
  by (simp add: run_solver_def split: solve_result.splits)

lemma run_solver_raises:
  "run_solver nlsolve st = Raises e s \<Longrightarrow> e = ConvergenceError"
  by (simp add: run_solver_def split: solve_result.splits)

lemma refresh_frame:
  "refresh_bcs st = st\<lparr>bigBCdata := bigBCdata (refresh_bcs st)\<rparr>"
  by (simp add: refresh_bcs_def)

lemma estimate_frame:
  "state_of (AdaptiveTimeStepper_estimate_error nrm st)
     = st\<lparr>error_func := error_func (state_of (AdaptiveTimeStepper_estimate_error nrm st))\<rparr>"
  by (simp add: AdaptiveTimeStepper_estimate_error_def Let_def split: outcome.splits)

lemma estimate_raises:
  "AdaptiveTimeStepper_estimate_error nrm st = Raises e s \<Longrightarrow> e = IndexError \<or> e = ValueError"
  by (auto simp: AdaptiveTimeStepper_estimate_error_def Let_def split: outcome.splits
        dest: stage_loop_raises)

lemma q_factor_raises:
  "q_factor tolv err ord = Inl e \<Longrightarrow> e = ZeroDivisionError \<or> e = TypeError"
  by (auto simp: q_factor_def py_pow_def split: if_splits sum.splits)

lemma predict_returns:
  assumes "predict nlsolve nrm st = Returns (err, dtnew) s2"
  shows "\<exists>s1 q. run_solver nlsolve (refresh_bcs st) = Returns () s1
           \<and> AdaptiveTimeStepper_estimate_error nrm s1 = Returns err s2
           \<and> q_factor (tol st) err (tab_order (butcher_tableau st)) = Inr q
           \<and> dtnew = clamp_q q * dt st"
proof -
  from assms obtain s1 q where
    a: "run_solver nlsolve (refresh_bcs st) = Returns () s1"
    and b: "AdaptiveTimeStepper_estimate_error nrm s1 = Returns err s2"
    and c: "q_factor (tol s2) err (tab_order (butcher_tableau s2)) = Inr q"
    and d: "dtnew = clamp_q q * dt s2"
    by (auto simp: predict_def split: outcome.splits sum.splits)
  from a have s1: "tol s1 = tol st" "butcher_tableau s1 = butcher_tableau st" "dt s1 = dt st"
    by (auto simp: run_solver_def refresh_bcs_def split: solve_result.splits)
  from b have s2: "tol s2 = tol s1" "butcher_tableau s2 = butcher_tableau s1" "dt s2 = dt s1"
    by (auto simp: AdaptiveTimeStepper_estimate_error_def Let_def split: outcome.splits)
  show ?thesis using a b c d s1 s2 by auto
qed

lemma predict_keeps:
  "u0 (state_of (predict nlsolve nrm st)) = u0 st"
  "dt (state_of (predict nlsolve nrm st)) = dt st"
  "time_t (state_of (predict nlsolve nrm st)) = time_t st"
  "tol (state_of (predict nlsolve nrm st)) = tol st"
  "dt_min (state_of (predict nlsolve nrm st)) = dt_min st"
  "butcher_tableau (state_of (predict nlsolve nrm st)) = butcher_tableau st"
  by (auto simp: predict_def run_solver_def refresh_bcs_def AdaptiveTimeStepper_estimate_error_def Let_def
        split: outcome.splits sum.splits solve_result.splits)

lemma predict_raises:
  "predict nlsolve nrm st = Raises e s \<Longrightarrow>
     e = ConvergenceError \<or> e = IndexError \<or> e = ValueError \<or> e = ZeroDivisionError \<or> e = TypeError"
  by (auto simp: predict_def split: outcome.splits sum.splits
        dest: run_solver_raises estimate_raises q_factor_raises)

lemma update_keeps:
  "dt (state_of (TimeStepper_update linsolve st)) = dt st"
  "time_t (state_of (TimeStepper_update linsolve st)) = time_t st"
  "tol (state_of (TimeStepper_update linsolve st)) = tol st"
  "dt_min (state_of (TimeStepper_update linsolve st)) = dt_min st"
  "butcher_tableau (state_of (TimeStepper_update linsolve st)) = butcher_tableau st"
  by (auto simp: TimeStepper_update_def Let_def split: prod.splits option.splits outcome.splits)

text \<open>The three ways a pass can end, read off the definition.\<close>

lemma attempt_rejected:
  assumes "attempt linsolve nlsolve nrm st = Returns (Rejected err dtnew) s'"
  shows "\<exists>s2. predict nlsolve nrm st = Returns (err, dtnew) s2 \<and> tol st \<le> err \<and> s' = s2\<lparr>dt := dtnew\<rparr>"
proof -
  from assms obtain s2 where p: "predict nlsolve nrm st = Returns (err, dtnew) s2"
    and r: "tol s2 \<le> err" "s' = s2\<lparr>dt := dtnew\<rparr>"
    by (auto simp: attempt_def split: outcome.splits prod.splits if_splits)
  from predict_keeps(4)[of nlsolve nrm st] p have "tol s2 = tol st" by simp
  with p r show ?thesis by auto
qed


lemma attempt_min_step:
  "attempt linsolve nlsolve nrm st = Raises (RuntimeError msg) s' \<longleftrightarrow>
     (\<exists>err dtnew. predict nlsolve nrm st = Returns (err, dtnew) s' \<and> err < tol st \<and> dtnew \<le> dt_min st
        \<and> msg = ''Minimum time step threshold violated'')"
proof
  assume a: "attempt linsolve nlsolve nrm st = Raises (RuntimeError msg) s'"
  then obtain err dtnew where p: "predict nlsolve nrm st = Returns (err, dtnew) s'"
    and r: "err < tol s'" "dtnew \<le> dt_min s'" "msg = ''Minimum time step threshold violated''"
    by (auto simp: attempt_def split: outcome.splits prod.splits if_splits
          dest: predict_raises update_raises)
  from predict_keeps(4,5)[of nlsolve nrm st] p have "tol s' = tol st" "dt_min s' = dt_min st" by simp_all
  with p r show "\<exists>err dtnew. predict nlsolve nrm st = Returns (err, dtnew) s' \<and> err < tol st
        \<and> dtnew \<le> dt_min st \<and> msg = ''Minimum time step threshold violated''" by auto
next
  assume "\<exists>err dtnew. predict nlsolve nrm st = Returns (err, dtnew) s' \<and> err < tol st
        \<and> dtnew \<le> dt_min st \<and> msg = ''Minimum time step threshold violated''"
  then obtain err dtnew where p: "predict nlsolve nrm st = Returns (err, dtnew) s'"
    and r: "err < tol st" "dtnew \<le> dt_min st" "msg = ''Minimum time step threshold violated''"
    by auto
  from predict_keeps(4,5)[of nlsolve nrm st] p have "tol s' = tol st" "dt_min s' = dt_min st" by simp_all
  with p r show "attempt linsolve nlsolve nrm st = Raises (RuntimeError msg) s'"
    by (simp add: attempt_def)
qed

lemma after_rejections_keeps:
  assumes "after_rejections k linsolve nlsolve nrm st = Some s"
  shows "u0 s = u0 st \<and> time_t s = time_t st \<and> tol s = tol st \<and> dt_min s = dt_min st
           \<and> butcher_tableau s = butcher_tableau st"
  using assms
proof (induction k arbitrary: st)
  case 0
  then show ?case by simp
next
  case (Suc k)
  from Suc.prems obtain err dtnew s1 where
    a: "attempt linsolve nlsolve nrm st = Returns (Rejected err dtnew) s1"
    and r: "after_rejections k linsolve nlsolve nrm s1 = Some s"
    by (auto split: outcome.splits attempt_result.splits)
  from attempt_rejected[OF a] obtain s2 where
    p: "predict nlsolve nrm st = Returns (err, dtnew) s2" and s1: "s1 = s2\<lparr>dt := dtnew\<rparr>" by auto
  from predict_keeps[of nlsolve nrm st] p s1
  have "u0 s1 = u0 st" "time_t s1 = time_t st" "tol s1 = tol st" "dt_min s1 = dt_min st"
    "butcher_tableau s1 = butcher_tableau st" by simp_all
  with Suc.IH[OF r] show ?case by simp
qed


lemma advance_raises_iff:
  "AdaptiveTimeStepper_advance n linsolve nlsolve nrm st = Some (Raises x s') \<longleftrightarrow>
     (\<exists>k<n. \<exists>sa. after_rejections k linsolve nlsolve nrm st = Some sa
         \<and> attempt linsolve nlsolve nrm sa = Raises x s')"
proof (induction n arbitrary: st)
  case 0
  show ?case by simp
next
  case (Suc n)
  show ?case
  proof (cases "attempt linsolve nlsolve nrm st")
    case (Raises e s)
    have "(\<exists>k<Suc n. \<exists>sa. after_rejections k linsolve nlsolve nrm st = Some sa
         \<and> attempt linsolve nlsolve nrm sa = Raises x s') \<longleftrightarrow> (e = x \<and> s = s')"
    proof
      assume "\<exists>k<Suc n. \<exists>sa. after_rejections k linsolve nlsolve nrm st = Some sa
         \<and> attempt linsolve nlsolve nrm sa = Raises x s'"
      then obtain k sa where k: "after_rejections k linsolve nlsolve nrm st = Some sa"
        "attempt linsolve nlsolve nrm sa = Raises x s'" by blast
      then show "e = x \<and> s = s'" using Raises by (cases k) auto
    next
      assume "e = x \<and> s = s'"
      with Raises have "after_rejections 0 linsolve nlsolve nrm st = Some st
         \<and> attempt linsolve nlsolve nrm st = Raises x s'" by simp
      then show "\<exists>k<Suc n. \<exists>sa. after_rejections k linsolve nlsolve nrm st = Some sa
         \<and> attempt linsolve nlsolve nrm sa = Raises x s'" by blast
    qed
    with Raises show ?thesis by simp
  next
    case (Returns r s)
    show ?thesis
    proof (cases r)
      case (Accepted e d)
      have "\<not> (\<exists>k<Suc n. \<exists>sa. after_rejections k linsolve nlsolve nrm st = Some sa
         \<and> attempt linsolve nlsolve nrm sa = Raises x s')"
      proof
        assume "\<exists>k<Suc n. \<exists>sa. after_rejections k linsolve nlsolve nrm st = Some sa
         \<and> attempt linsolve nlsolve nrm sa = Raises x s'"
        then obtain k sa where k: "after_rejections k linsolve nlsolve nrm st = Some sa"
          "attempt linsolve nlsolve nrm sa = Raises x s'" by blast
        then show False using Returns Accepted by (cases k) auto
      qed
      with Returns Accepted show ?thesis by simp
    next
      case (Rejected e d)
      have "(\<exists>k<Suc n. \<exists>sa. after_rejections k linsolve nlsolve nrm st = Some sa
         \<and> attempt linsolve nlsolve nrm sa = Raises x s')
         \<longleftrightarrow> (\<exists>k<n. \<exists>sa. after_rejections k linsolve nlsolve nrm s = Some sa
         \<and> attempt linsolve nlsolve nrm sa = Raises x s')"
      proof
        assume "\<exists>k<Suc n. \<exists>sa. after_rejections k linsolve nlsolve nrm st = Some sa
         \<and> attempt linsolve nlsolve nrm sa = Raises x s'"
        then obtain k sa where k: "k < Suc n" "after_rejections k linsolve nlsolve nrm st = Some sa"
          "attempt linsolve nlsolve nrm sa = Raises x s'" by blast
        show "\<exists>k<n. \<exists>sa. after_rejections k linsolve nlsolve nrm s = Some sa
         \<and> attempt linsolve nlsolve nrm sa = Raises x s'"
        proof (cases k)
          case 0
          with k Returns show ?thesis by simp
        next
          case (Suc k')
          with k Returns Rejected have "k' < n" "after_rejections k' linsolve nlsolve nrm s = Some sa"
            by simp_all
          with k(3) show ?thesis by blast
        qed
      next
        assume "\<exists>k<n. \<exists>sa. after_rejections k linsolve nlsolve nrm s = Some sa
         \<and> attempt linsolve nlsolve nrm sa = Raises x s'"
        then obtain k sa where k: "k < n" "after_rejections k linsolve nlsolve nrm s = Some sa"
          "attempt linsolve nlsolve nrm sa = Raises x s'" by blast
        with Returns Rejected have "Suc k < Suc n"
          "after_rejections (Suc k) linsolve nlsolve nrm st = Some sa" by simp_all
        with k(3) show "\<exists>k<Suc n. \<exists>sa. after_rejections k linsolve nlsolve nrm st = Some sa
         \<and> attempt linsolve nlsolve nrm sa = Raises x s'" by blast
      qed
      with Returns Rejected Suc.IH[of s] show ?thesis by simp
    qed
  qed
qed



lemma q_factor_formula:
  assumes "q_factor tolv err ord = Inr q" and "0 < tolv / err"
  shows "q = 0.84 * (tolv / err) powr (1 / of_int (ord - 1))"
  using assms by (auto simp: q_factor_def py_pow_def split: if_splits sum.splits)




lemmas adaptive_eval =
  attempt_def predict_def run_solver_def refresh_bcs_def AdaptiveTimeStepper_estimate_error_def
  TimeStepper_update_def q_factor_def py_pow_def clamp_q_def py_index_def np_iadd_def np_scale_def
  ex_adaptive_def ex_tableau_def ex_linsolve_def ex_norm_def ex_nlsolve_def AI_def identity_def
  Let_def numeral_2_eq_2


text \<open>
  Claim C5.  \<open>advance\<close> raises the minimum-step \<open>RuntimeError\<close> exactly when some pass, reached
  through rejections only, estimates an error below the tolerance and predicts a step size at
  or below \<open>dt_min\<close>.  A pass whose error is at or above the tolerance is a rejection whatever
  the predicted step size: it assigns that step size, which is smaller for an order of at
  least two and positive tolerance and step size, and the loop goes on with the next pass,
  which calls the solver (with the step size it finds) before it estimates.
\<close>

theorem min_step_violation:
  "(AdaptiveTimeStepper_advance n linsolve nlsolve nrm st = Some (Raises (RuntimeError msg) s')
      \<longleftrightarrow> (\<exists>k<n. \<exists>sa err dtnew.
             after_rejections k linsolve nlsolve nrm st = Some sa
           \<and> predict nlsolve nrm sa = Returns (err, dtnew) s'
           \<and> err < tol st \<and> dtnew \<le> dt_min st
           \<and> msg = ''Minimum time step threshold violated''))
   \<and> (predict nlsolve nrm st = Returns (err0, dtnew0) s2 \<and> tol st \<le> err0 \<longrightarrow>
          attempt linsolve nlsolve nrm st = Returns (Rejected err0 dtnew0) (s2\<lparr>dt := dtnew0\<rparr>)
        \<and> AdaptiveTimeStepper_advance (Suc m) linsolve nlsolve nrm st
            = AdaptiveTimeStepper_advance m linsolve nlsolve nrm (s2\<lparr>dt := dtnew0\<rparr>)
        \<and> (2 \<le> tab_order (butcher_tableau st) \<and> 0 < tol st \<and> 0 < dt st \<longrightarrow> dtnew0 < dt st))
   \<and> (predict nlsolve nrm st = Returns (err1, dtnew1) s3 \<longrightarrow>
          (\<exists>kk. nlsolve (time_t st) (dt st) (u0 st) (bigBCdata (refresh_bcs st)) (ks st) = Converged kk
                \<and> ks s3 = kk))"
proof (intro conjI impI)
  show "AdaptiveTimeStepper_advance n linsolve nlsolve nrm st = Some (Raises (RuntimeError msg) s')
      \<longleftrightarrow> (\<exists>k<n. \<exists>sa err dtnew.
             after_rejections k linsolve nlsolve nrm st = Some sa
           \<and> predict nlsolve nrm sa = Returns (err, dtnew) s'
           \<and> err < tol st \<and> dtnew \<le> dt_min st
           \<and> msg = ''Minimum time step threshold violated'')"
  proof
    assume "AdaptiveTimeStepper_advance n linsolve nlsolve nrm st = Some (Raises (RuntimeError msg) s')"
    then obtain k sa where k: "k < n" and sa: "after_rejections k linsolve nlsolve nrm st = Some sa"
      and a: "attempt linsolve nlsolve nrm sa = Raises (RuntimeError msg) s'"
      unfolding advance_raises_iff by blast
    from after_rejections_keeps[OF sa] have "tol sa = tol st" "dt_min sa = dt_min st" by simp_all
    with a k sa show "\<exists>k<n. \<exists>sa err dtnew.
             after_rejections k linsolve nlsolve nrm st = Some sa
           \<and> predict nlsolve nrm sa = Returns (err, dtnew) s'
           \<and> err < tol st \<and> dtnew \<le> dt_min st
           \<and> msg = ''Minimum time step threshold violated''"
      unfolding attempt_min_step by auto
  next
    assume "\<exists>k<n. \<exists>sa err dtnew.
             after_rejections k linsolve nlsolve nrm st = Some sa
           \<and> predict nlsolve nrm sa = Returns (err, dtnew) s'
           \<and> err < tol st \<and> dtnew \<le> dt_min st
           \<and> msg = ''Minimum time step threshold violated''"
    then obtain k sa err dtnew where k: "k < n"
      and sa: "after_rejections k linsolve nlsolve nrm st = Some sa"
      and p: "predict nlsolve nrm sa = Returns (err, dtnew) s'" "err < tol st" "dtnew \<le> dt_min st"
        "msg = ''Minimum time step threshold violated''" by blast
    from after_rejections_keeps[OF sa] have "tol sa = tol st" "dt_min sa = dt_min st" by simp_all
    with p have "attempt linsolve nlsolve nrm sa = Raises (RuntimeError msg) s'"
      unfolding attempt_min_step by auto
    with k sa show "AdaptiveTimeStepper_advance n linsolve nlsolve nrm st
        = Some (Raises (RuntimeError msg) s')"
      unfolding advance_raises_iff by blast
  qed
next
  assume h: "predict nlsolve nrm st = Returns (err0, dtnew0) s2 \<and> tol st \<le> err0"
  then have p: "predict nlsolve nrm st = Returns (err0, dtnew0) s2" and ge: "tol st \<le> err0" by simp_all
  from predict_keeps(4)[of nlsolve nrm st] p have t2: "tol s2 = tol st" by simp
  show rej: "attempt linsolve nlsolve nrm st = Returns (Rejected err0 dtnew0) (s2\<lparr>dt := dtnew0\<rparr>)"
    using p ge t2 by (simp add: attempt_def)
  show "AdaptiveTimeStepper_advance (Suc m) linsolve nlsolve nrm st
            = AdaptiveTimeStepper_advance m linsolve nlsolve nrm (s2\<lparr>dt := dtnew0\<rparr>)"
    using rej by simp
  show "dtnew0 < dt st"
    if c: "2 \<le> tab_order (butcher_tableau st) \<and> 0 < tol st \<and> 0 < dt st"
  proof -
    from predict_returns[OF p] obtain q where
      q: "q_factor (tol st) err0 (tab_order (butcher_tableau st)) = Inr q"
      and d: "dtnew0 = clamp_q q * dt st" by blast
    from c ge have pos: "0 < err0" "0 < tol st / err0" "tol st / err0 \<le> 1" by simp_all
    from c have ex: "0 \<le> 1 / real_of_int (tab_order (butcher_tableau st) - 1)" by simp
    have "(tol st / err0) powr (1 / of_int (tab_order (butcher_tableau st) - 1)) \<le> 1"
      using pos ex c by (intro powr_le1) auto
    with q_factor_formula[OF q pos(2)] have "q \<le> 0.84" by simp
    then have "clamp_q q < 1" by (simp add: clamp_q_def)
    with c d show ?thesis by simp
  qed
next
  assume p: "predict nlsolve nrm st = Returns (err1, dtnew1) s3"
  from predict_returns[OF p] obtain s1 where
    a: "run_solver nlsolve (refresh_bcs st) = Returns () s1"
    and b: "AdaptiveTimeStepper_estimate_error nrm s1 = Returns err1 s3" by blast
  from a obtain kk where kk: "nlsolve (time_t st) (dt st) (u0 st) (bigBCdata (refresh_bcs st)) (ks st)
      = Converged kk" "ks s1 = kk"
    by (auto simp: run_solver_def refresh_bcs_def split: solve_result.splits)
  from b have "ks s3 = ks s1"
    by (auto simp: AdaptiveTimeStepper_estimate_error_def Let_def split: outcome.splits)
  with kk show "\<exists>kk. nlsolve (time_t st) (dt st) (u0 st) (bigBCdata (refresh_bcs st)) (ks st) = Converged kk
                \<and> ks s3 = kk" by simp
qed

theorem min_step_violation_witness:
  "AdaptiveTimeStepper_advance 2 ex_linsolve ex_nlsolve ex_norm (ex_adaptive 1)
     = Some (Raises (RuntimeError ''Minimum time step threshold violated'')
         ((ex_adaptive 1)\<lparr>ks := [[21/100], [63/100]], error_func := [[- 441/5000]], dt := 21/100\<rparr>))
   \<and> attempt ex_linsolve ex_nlsolve ex_norm (ex_adaptive 1)
       = Returns (Rejected 2 (21/100)) ((ex_adaptive 1)\<lparr>ks := [[1], [3]], error_func := [[- 2]], dt := 21/100\<rparr>)
   \<and> (21/100 :: real) \<le> dt_min (ex_adaptive 1)"
proof -
  have p0: "predict ex_nlsolve ex_norm (ex_adaptive 1)
     = Returns (2, 21/100) ((ex_adaptive 1)\<lparr>ks := [[1], [3]], error_func := [[- 2]]\<rparr>)
     \<and> tol (ex_adaptive 1) \<le> 2"
    by (simp add: adaptive_eval)
  have r1: "after_rejections 1 ex_linsolve ex_nlsolve ex_norm (ex_adaptive 1)
     = Some ((ex_adaptive 1)\<lparr>ks := [[1], [3]], error_func := [[- 2]], dt := 21/100\<rparr>)"
    by (simp add: adaptive_eval)
  have p1: "predict ex_nlsolve ex_norm
       ((ex_adaptive 1)\<lparr>ks := [[1], [3]], error_func := [[- 2]], dt := 21/100\<rparr>)
     = Returns (441/5000, 21/25)
         ((ex_adaptive 1)\<lparr>ks := [[21/100], [63/100]], error_func := [[- 441/5000]], dt := 21/100\<rparr>)"
    by (simp add: adaptive_eval)
  note inst = min_step_violation[where st="ex_adaptive 1" and n=2 and linsolve=ex_linsolve
      and nlsolve=ex_nlsolve and nrm=ex_norm
      and msg="''Minimum time step threshold violated''"
      and s'="(ex_adaptive 1)\<lparr>ks := [[21/100], [63/100]], error_func := [[- 441/5000]], dt := 21/100\<rparr>"
      and ?err0.0="2" and ?dtnew0.0="21/100"
      and ?s2.0="(ex_adaptive 1)\<lparr>ks := [[1], [3]], error_func := [[- 2]]\<rparr>"]
  have cond: "\<exists>k<2. \<exists>sa err dtnew.
             after_rejections k ex_linsolve ex_nlsolve ex_norm (ex_adaptive 1) = Some sa
           \<and> predict ex_nlsolve ex_norm sa = Returns (err, dtnew)
                ((ex_adaptive 1)\<lparr>ks := [[21/100], [63/100]], error_func := [[- 441/5000]], dt := 21/100\<rparr>)
           \<and> err < tol (ex_adaptive 1) \<and> dtnew \<le> dt_min (ex_adaptive 1)
           \<and> ''Minimum time step threshold violated'' = ''Minimum time step threshold violated''"
    using r1 p1
    by (intro exI[of _ 1] conjI
          exI[of _ "(ex_adaptive 1)\<lparr>ks := [[1], [3]], error_func := [[- 2]], dt := 21/100\<rparr>"]
          exI[of _ "441/5000"] exI[of _ "21/25"])
       (simp_all add: ex_adaptive_def)
  from inst cond p0 show ?thesis
    by (simp add: ex_adaptive_def)
qed


section \<open>What the steppers write, and where the scale factor is undefined\<close>

lemma base_advance_keeps:
  "time_t (state_of (TimeStepper_advance linsolve nlsolve st)) = time_t st"
  "dt (state_of (TimeStepper_advance linsolve nlsolve st)) = dt st"
  by (auto simp: TimeStepper_advance_def TimeStepper_update_def run_solver_def refresh_bcs_def Let_def
        split: outcome.splits solve_result.splits prod.splits option.splits)

lemma base_advance_u0:
  assumes "u0 (state_of (TimeStepper_advance linsolve nlsolve st)) \<noteq> u0 st"
  shows "\<exists>k. nlsolve (time_t st) (dt st) (u0 st) (bigBCdata (refresh_bcs st)) (ks st) = Converged k"
  using assms
  by (auto simp: TimeStepper_advance_def run_solver_def refresh_bcs_def
        split: outcome.splits solve_result.splits)

lemma base_advance_solver_failure:
  assumes "TimeStepper_advance linsolve nlsolve st = Raises ConvergenceError s'"
  shows "u0 s' = u0 st"
  using assms
  by (auto simp: TimeStepper_advance_def run_solver_def refresh_bcs_def
        split: outcome.splits solve_result.splits dest: update_raises)

lemma attempt_u0:
  assumes "u0 (state_of (attempt linsolve nlsolve nrm st)) \<noteq> u0 st"
  shows "\<exists>err dtnew s2. predict nlsolve nrm st = Returns (err, dtnew) s2
           \<and> err < tol st \<and> dt_min st < dtnew"
proof (cases "predict nlsolve nrm st")
  case (Raises e s)
  with assms predict_keeps(1)[of nlsolve nrm st] show ?thesis
    by (simp add: attempt_def)
next
  case (Returns r s2)
  obtain err dtnew where r: "r = (err, dtnew)" by (cases r)
  from predict_keeps(1,4,5)[of nlsolve nrm st] Returns
  have k: "u0 s2 = u0 st" "tol s2 = tol st" "dt_min s2 = dt_min st" by simp_all
  from assms Returns r k have "err < tol st \<and> dt_min st < dtnew"
    by (auto simp: attempt_def split: if_splits)
  with Returns r show ?thesis by blast
qed

text \<open>
  Claim C6.  \<open>u0\<close> is written only at the end of an accepted step.  If the base \<open>advance\<close>
  leaves \<open>u0\<close> changed, the solver has converged, and a failure of the solver leaves \<open>u0\<close> as it
  was; neither the base \<open>advance\<close> nor \<open>_update\<close> writes \<open>t\<close> or \<open>dt\<close>.  If a pass of the adaptive
  loop leaves \<open>u0\<close> changed, the pass took the accept branch (error below the tolerance,
  predicted step size above \<open>dt_min\<close>); a rejected pass, any number of rejected passes, and the
  minimum-step error leave \<open>u0\<close> as it was.
\<close>

theorem u0_written_only_on_accept:
  "(u0 (state_of (TimeStepper_advance linsolve bnlsolve bst)) \<noteq> u0 bst \<longrightarrow>
       (\<exists>k. bnlsolve (time_t bst) (dt bst) (u0 bst) (bigBCdata (refresh_bcs bst)) (ks bst) = Converged k))
   \<and> (TimeStepper_advance linsolve bnlsolve bst = Raises ConvergenceError bs' \<longrightarrow> u0 bs' = u0 bst)
   \<and> time_t (state_of (TimeStepper_advance linsolve bnlsolve bst)) = time_t bst
   \<and> dt (state_of (TimeStepper_advance linsolve bnlsolve bst)) = dt bst
   \<and> time_t (state_of (TimeStepper_update linsolve bst)) = time_t bst
   \<and> dt (state_of (TimeStepper_update linsolve bst)) = dt bst
   \<and> (u0 (state_of (attempt linsolve nlsolve nrm st)) \<noteq> u0 st \<longrightarrow>
         (\<exists>err dtnew s2. predict nlsolve nrm st = Returns (err, dtnew) s2
            \<and> err < tol st \<and> dt_min st < dtnew))
   \<and> (attempt linsolve nlsolve nrm st = Returns (Rejected e d) s' \<longrightarrow> u0 s' = u0 st)
   \<and> (after_rejections k linsolve nlsolve nrm st = Some sk \<longrightarrow> u0 sk = u0 st)
   \<and> (AdaptiveTimeStepper_advance n linsolve nlsolve nrm st = Some (Raises (RuntimeError msg) sr)
        \<longrightarrow> u0 sr = u0 st)"
proof (intro conjI impI)
  show "\<exists>k. bnlsolve (time_t bst) (dt bst) (u0 bst) (bigBCdata (refresh_bcs bst)) (ks bst) = Converged k"
    if "u0 (state_of (TimeStepper_advance linsolve bnlsolve bst)) \<noteq> u0 bst"
    using that by (rule base_advance_u0)
  show "u0 bs' = u0 bst" if "TimeStepper_advance linsolve bnlsolve bst = Raises ConvergenceError bs'"
    using that by (rule base_advance_solver_failure)
  show "time_t (state_of (TimeStepper_advance linsolve bnlsolve bst)) = time_t bst"
    "dt (state_of (TimeStepper_advance linsolve bnlsolve bst)) = dt bst"
    by (rule base_advance_keeps)+
  show "time_t (state_of (TimeStepper_update linsolve bst)) = time_t bst"
    "dt (state_of (TimeStepper_update linsolve bst)) = dt bst"
    by (auto simp: TimeStepper_update_def Let_def split: prod.splits option.splits outcome.splits)
  show "\<exists>err dtnew s2. predict nlsolve nrm st = Returns (err, dtnew) s2
            \<and> err < tol st \<and> dt_min st < dtnew"
    if "u0 (state_of (attempt linsolve nlsolve nrm st)) \<noteq> u0 st"
    using that by (rule attempt_u0)
  show "u0 s' = u0 st" if a: "attempt linsolve nlsolve nrm st = Returns (Rejected e d) s'"
  proof -
    from attempt_rejected[OF a] obtain s2 where
      "predict nlsolve nrm st = Returns (e, d) s2" "s' = s2\<lparr>dt := d\<rparr>" by blast
    with predict_keeps(1)[of nlsolve nrm st] show ?thesis by simp
  qed
  show "u0 sk = u0 st" if "after_rejections k linsolve nlsolve nrm st = Some sk"
    using after_rejections_keeps[OF that] by simp
  show "u0 sr = u0 st"
    if r: "AdaptiveTimeStepper_advance n linsolve nlsolve nrm st = Some (Raises (RuntimeError msg) sr)"
  proof -
    from r obtain j sa where sa: "after_rejections j linsolve nlsolve nrm st = Some sa"
      and a: "attempt linsolve nlsolve nrm sa = Raises (RuntimeError msg) sr"
      unfolding advance_raises_iff by blast
    from a obtain err dtnew where "predict nlsolve nrm sa = Returns (err, dtnew) sr"
      unfolding attempt_min_step by blast
    with predict_keeps(1)[of nlsolve nrm sa] have "u0 sr = u0 sa" by simp
    with after_rejections_keeps[OF sa] show ?thesis by simp
  qed
qed

theorem u0_written_only_on_accept_witness:
  "TimeStepper_advance ex_linsolve ex_failing_nlsolve ex_stepper
     = Raises ConvergenceError (ex_stepper\<lparr>ks := [[7], [7]]\<rparr>)
   \<and> u0 (ex_stepper\<lparr>ks := [[7], [7]]\<rparr>) = [[1]]
   \<and> attempt ex_linsolve ex_nlsolve ex_norm (ex_adaptive (1/100))
       = Returns (Rejected 2 (21/100))
           ((ex_adaptive (1/100))\<lparr>ks := [[1], [3]], error_func := [[- 2]], dt := 21/100\<rparr>)"
proof -
  have f: "TimeStepper_advance ex_linsolve ex_failing_nlsolve ex_stepper
     = Raises ConvergenceError (ex_stepper\<lparr>ks := [[7], [7]]\<rparr>)"
    by (simp add: TimeStepper_advance_def run_solver_def refresh_bcs_def ex_failing_nlsolve_def
        ex_stepper_def TimeStepper_init_def)
  have a: "attempt ex_linsolve ex_nlsolve ex_norm (ex_adaptive (1/100))
       = Returns (Rejected 2 (21/100))
           ((ex_adaptive (1/100))\<lparr>ks := [[1], [3]], error_func := [[- 2]], dt := 21/100\<rparr>)"
    by (simp add: adaptive_eval)
  note inst = u0_written_only_on_accept[where bst=ex_stepper and linsolve=ex_linsolve
      and bnlsolve=ex_failing_nlsolve and bs'="ex_stepper\<lparr>ks := [[7], [7]]\<rparr>"
      and st="ex_adaptive (1/100)" and nlsolve=ex_nlsolve and nrm=ex_norm and e="2" and d="21/100"
      and s'="(ex_adaptive (1/100))\<lparr>ks := [[1], [3]], error_func := [[- 2]], dt := 21/100\<rparr>"]
  from inst f a have "u0 (ex_stepper\<lparr>ks := [[7], [7]]\<rparr>) = u0 ex_stepper" by blast
  then show ?thesis
    using f a by (simp add: ex_stepper_def TimeStepper_init_def)
qed




section \<open>The form of the discontinuous Galerkin method\<close>









lemmas dg_eval =
  DG_init_def DG_init_rest_def DG_element_def getFormDiscGalerkin_def Let_def
  function_space_def Function_on_def take_rows_def dof_perm_def quad_terms_def quad_term_def column_def
  py_index_def jump_term_def
  ex_fiat_def ex_make_quadrature_def ex_form_def P0_element_def P1_element_def P2_element_def
  ex_trapezoid3_def

lemma ex_dg0_init:
  "DG_init ex_fiat ex_make_quadrature ex_form 0 0 (1/10) [[1]] None None = Inr ex_dg0"
  by (simp add: dg_eval ex_dg0_def)


section \<open>The assertion on the quadrature rule\<close>

text \<open>
  Claim C7, as stated, fails.  The constructor tests the number of points of the quadrature
  rule, not its accuracy: for order two it accepts the trapezoidal rule on two cells, which
  has three points and is not exact for polynomials of degree two, so still less for degree
  three.
\<close>

theorem quadrature_check_counterexample:
  "\<not> isl (DG_init ex_fiat ex_make_quadrature ex_form 2 0 (1/10) [[1]] None (Some ex_trapezoid3))
   \<and> \<not> exact_for_degree ex_trapezoid3 2
   \<and> \<not> exact_for_degree ex_trapezoid3 (nat 2 + 1)"
  by (simp add: dg_eval exact_for_degree_def numeral_3_eq_3 numeral_2_eq_2 upt_rec)

text \<open>
  Claim C7, amended.  For an order that is not negative the constructor raises
  \<open>AssertionError\<close>, before it builds the form, for every quadrature rule with fewer than
  \<open>order + 1\<close> points, and goes on to build the form for every rule with at least that many;
  without a rule it takes \<open>make_quadrature(ufc_line, order + 1)\<close>, which has \<open>order + 1\<close> points
  and so passes the assertion.
\<close>

theorem DG_init_quadrature_check:
  "(0 \<le> ord \<and> int (length (get_points Q)) < ord + 1 \<longrightarrow>
       DG_init fiat make_quadrature F ord t0 dt0 u basis_type (Some Q) = Inl AssertionError)
   \<and> (0 \<le> ord \<and> ord + 1 \<le> int (length (get_points Q)) \<longrightarrow>
       DG_init fiat make_quadrature F ord t0 dt0 u basis_type (Some Q)
         = DG_init_rest F ord t0 dt0 u basis_type (DG_element fiat ord basis_type) Q)
   \<and> (0 \<le> ord \<and> length (get_points (make_quadrature (Simplex 1) (ord + 1))) = nat (ord + 1) \<longrightarrow>
       DG_init fiat make_quadrature F ord t0 dt0 u basis_type None
         = DG_init_rest F ord t0 dt0 u basis_type (DG_element fiat ord basis_type)
             (make_quadrature (Simplex 1) (ord + 1)))"
  by (auto simp: DG_init_def Let_def)

theorem DG_init_quadrature_check_witness:
  "DG_init ex_fiat ex_make_quadrature ex_form 2 0 (1/10) [[1]] None
       (Some (ex_make_quadrature (Simplex 1) 1)) = Inl AssertionError
   \<and> length (get_points (ex_make_quadrature (Simplex 1) (0 + 1))) = nat (0 + 1)
   \<and> DG_init ex_fiat ex_make_quadrature ex_form 0 0 (1/10) [[1]] None None
       = DG_init_rest ex_form 0 0 (1/10) [[1]] None (DG_element ex_fiat 0 None)
           (ex_make_quadrature (Simplex 1) (0 + 1))"
proof -
  have a: "(0::int) \<le> 2 \<and> int (length (get_points (ex_make_quadrature (Simplex 1) 1))) < 2 + 1"
    by (simp add: ex_make_quadrature_def)
  have b: "(0::int) \<le> 0 \<and> length (get_points (ex_make_quadrature (Simplex 1) (0 + 1))) = nat (0 + 1)"
    by (simp add: ex_make_quadrature_def)
  note i1 = DG_init_quadrature_check[where ord=2 and Q="ex_make_quadrature (Simplex 1) 1"
      and fiat=ex_fiat and make_quadrature=ex_make_quadrature and F=ex_form and ?t0.0=0
      and ?dt0.0="1/10" and u="[[1]]" and basis_type=None]
  note i2 = DG_init_quadrature_check[where ord=0 and Q="ex_make_quadrature (Simplex 1) 1"
      and fiat=ex_fiat and make_quadrature=ex_make_quadrature and F=ex_form and ?t0.0=0
      and ?dt0.0="1/10" and u="[[1]]" and basis_type=None]
  from i1 a have "DG_init ex_fiat ex_make_quadrature ex_form 2 0 (1/10) [[1]] None
       (Some (ex_make_quadrature (Simplex 1) 1)) = Inl AssertionError" by blast
  moreover from i2 b have "DG_init ex_fiat ex_make_quadrature ex_form 0 0 (1/10) [[1]] None None
       = DG_init_rest ex_form 0 0 (1/10) [[1]] None (DG_element ex_fiat 0 None)
           (ex_make_quadrature (Simplex 1) (0 + 1))" by blast
  ultimately show ?thesis using b by blast
qed

section \<open>The counters\<close>

text \<open>
  Claim C8, as stated, fails.  Neither \<open>TimeStepper\<close> nor \<open>AdaptiveTimeStepper\<close> defines
  \<open>solver_stats\<close> or keeps a counter: the call raises \<open>AttributeError\<close>.
\<close>

theorem solver_stats_counterexample:
  "call_solver_stats (RK_stepper ex_stepper :: (unit, string) stepper) = Inl AttributeError
   \<and> call_solver_stats (Adaptive_stepper (ex_adaptive (1/100)) :: (unit, string) stepper)
       = Inl AttributeError
   \<and> \<not> has_attribute TimeStepper_class ''solver_stats''
   \<and> \<not> has_attribute AdaptiveTimeStepper_class ''solver_stats''"
  by (simp add: call_solver_stats_def has_attribute_def TimeStepper_attributes_def)

lemma DG_advance_counts:
  assumes "DG_advance nlsolve st = Returns () st'"
  shows "num_steps st' = num_steps st + 1"
  using assms
  by (auto simp: DG_advance_def Let_def split: dg_solve_result.splits outcome.splits)

lemma DG_advance_n_counts:
  assumes "DG_advance_n n nlsolve st = Returns () st'"
  shows "num_steps st' = num_steps st + int n"
  using assms
proof (induction n arbitrary: st)
  case 0
  then show ?case by simp
next
  case (Suc n)
  from Suc.prems obtain s where a: "DG_advance nlsolve st = Returns () s"
    and r: "DG_advance_n n nlsolve s = Returns () st'"
    by (auto split: outcome.splits)
  from DG_advance_counts[OF a] Suc.IH[OF r] show ?case by simp
qed

text \<open>
  Claim C8, amended.  \<open>DiscontinuousGalerkinTimeStepper\<close> has the accessor \<open>solver_stats()\<close>, which
  returns the counters of steps, of nonlinear and of linear iterations.  The constructor sets
  them to zero, and \<open>n\<close> calls of \<open>advance()\<close> that return add \<open>n\<close> to the step counter, so after
  them a new stepper counts \<open>n\<close> steps.
\<close>

theorem DG_solver_stats_counts:
  "call_solver_stats (DG_stepper st)
     = Inr (num_steps st, num_nonlinear_iterations st, num_linear_iterations st)
   \<and> (DG_init fiat make_quadrature F ord t0 dt0 u basis_type quadrature_arg = Inr st0
        \<longrightarrow> solver_stats st0 = (0, 0, 0))
   \<and> (DG_init fiat make_quadrature F ord t0 dt0 u basis_type quadrature_arg = Inr st0
        \<and> DG_advance_n n nlsolve st0 = Returns () st'
        \<longrightarrow> fst (solver_stats st') = int n)
   \<and> (DG_advance_n n nlsolve st = Returns () st'
        \<longrightarrow> fst (solver_stats st') = fst (solver_stats st) + int n)"
proof -
  have a: "call_solver_stats (DG_stepper st)
     = Inr (num_steps st, num_nonlinear_iterations st, num_linear_iterations st)"
    by (simp add: call_solver_stats_def has_attribute_def solver_stats_def)
  have b: "solver_stats st0 = (0, 0, 0)"
    if "DG_init fiat make_quadrature F ord t0 dt0 u basis_type quadrature_arg = Inr st0"
    using that
    by (auto simp: DG_init_def DG_init_rest_def Let_def solver_stats_def
          split: if_splits sum.splits prod.splits)
  have c: "fst (solver_stats st') = fst (solver_stats st) + int n"
    if "DG_advance_n n nlsolve st = Returns () st'"
    using DG_advance_n_counts[OF that] by (simp add: solver_stats_def)
  have d: "fst (solver_stats st') = int n"
    if "DG_init fiat make_quadrature F ord t0 dt0 u basis_type quadrature_arg = Inr st0
        \<and> DG_advance_n n nlsolve st0 = Returns () st'"
  proof -
    from that have i: "DG_init fiat make_quadrature F ord t0 dt0 u basis_type quadrature_arg = Inr st0"
      and r: "DG_advance_n n nlsolve st0 = Returns () st'" by simp_all
    from DG_advance_n_counts[OF r] b[OF i] show ?thesis by (simp add: solver_stats_def)
  qed
  from a b c d show ?thesis by blast
qed

theorem DG_solver_stats_counts_witness:
  "DG_init ex_fiat ex_make_quadrature ex_form 0 0 (1/10) [[1]] None None = Inr ex_dg0
   \<and> DG_advance_n 2 ex_dg_nlsolve ex_dg0
       = Returns () (ex_dg0\<lparr>dg_UU := [[100/121]], num_steps := 2, num_nonlinear_iterations := 4,
                            num_linear_iterations := 6, dg_u0 := [[100/121]]\<rparr>)
   \<and> fst (solver_stats (ex_dg0\<lparr>dg_UU := [[100/121]], num_steps := 2, num_nonlinear_iterations := 4,
                            num_linear_iterations := 6, dg_u0 := [[100/121]]\<rparr>)) = 2"
proof -
  have i: "DG_init ex_fiat ex_make_quadrature ex_form 0 0 (1/10) [[1]] None None = Inr ex_dg0"
    by (simp add: dg_eval ex_dg0_def)
  have r: "DG_advance_n 2 ex_dg_nlsolve ex_dg0
       = Returns () (ex_dg0\<lparr>dg_UU := [[100/121]], num_steps := 2, num_nonlinear_iterations := 4,
                            num_linear_iterations := 6, dg_u0 := [[100/121]]\<rparr>)"
    by (simp add: numeral_2_eq_2 DG_advance_def ex_dg_nlsolve_def ex_dg0_def py_index_def Let_def)
  from DG_solver_stats_counts[where fiat=ex_fiat and make_quadrature=ex_make_quadrature and F=ex_form
      and ord=0 and ?t0.0=0 and ?dt0.0="1/10" and u="[[1]]" and basis_type=None and quadrature_arg=None
      and ?st0.0=ex_dg0 and n=2 and nlsolve=ex_dg_nlsolve
      and st'="ex_dg0\<lparr>dg_UU := [[100/121]], num_steps := 2, num_nonlinear_iterations := 4,
                            num_linear_iterations := 6, dg_u0 := [[100/121]]\<rparr>"] i r
  have "fst (solver_stats (ex_dg0\<lparr>dg_UU := [[100/121]], num_steps := 2, num_nonlinear_iterations := 4,
                            num_linear_iterations := 6, dg_u0 := [[100/121]]\<rparr>)) = int 2"
    by blast
  with i r show ?thesis by simp
qed


end
